theory Spec2Isabelle
  imports Main "HOL-Library.AList"
begin

section \<open>Parsed JSON and the JavaScript coercions the code applies to it\<close>

text \<open>
  The directory body is whatever \<^verbatim>\<open>response.json()\<close> returns: an arbitrary JSON value
  (\<^verbatim>\<open>data: any\<close>). An object is the list of its own properties in insertion order.
  Numbers are the integers of epoch-millisecond timestamps; the code only asks whether a
  value is a number and whether it is falsy.
\<close>

datatype json =
    JNull
  | JBool bool
  | JNum int
  | JStr string
  | JArr "json list"
  | JObj "(string \<times> json) list"

text \<open>The double quote, which cannot be written inside a string literal.\<close>

definition dq :: string where
  "dq = [CHR 0x22]"

text \<open>
  \<^verbatim>\<open>v.name\<close> on a value that is neither \<^verbatim>\<open>null\<close> nor \<^verbatim>\<open>undefined\<close>; \<open>None\<close> is
  \<^verbatim>\<open>undefined\<close>. Only own properties of objects answer: none of the names the code reads
  (\<^verbatim>\<open>kty crv x kid nbf exp purpose\<close>) exists on a prototype, and \<^verbatim>\<open>keys\<close> on an array is
  a built-in method, which \<^verbatim>\<open>Array.isArray\<close> refuses exactly as it refuses \<^verbatim>\<open>undefined\<close>.
\<close>

fun get_prop :: "json \<Rightarrow> string \<Rightarrow> json option" where
  "get_prop (JObj ps) name = map_of ps name"
| "get_prop _ name = None"

text \<open>JavaScript truthiness: \<^verbatim>\<open>!v\<close> is \<open>\<not> truthy v\<close>.\<close>

fun truthy :: "json \<Rightarrow> bool" where
  "truthy JNull = False"
| "truthy (JBool b) = b"
| "truthy (JNum n) = (n \<noteq> 0)"
| "truthy (JStr s) = (s \<noteq> [])"
| "truthy (JArr _) = True"
| "truthy (JObj _) = True"

fun truthy_opt :: "json option \<Rightarrow> bool" where
  "truthy_opt None = False"
| "truthy_opt (Some v) = truthy v"

fun typeof :: "json option \<Rightarrow> string" where
  "typeof None = ''undefined''"
| "typeof (Some JNull) = ''object''"
| "typeof (Some (JBool _)) = ''boolean''"
| "typeof (Some (JNum _)) = ''number''"
| "typeof (Some (JStr _)) = ''string''"
| "typeof (Some (JArr _)) = ''object''"
| "typeof (Some (JObj _)) = ''object''"

text \<open>Decimal rendering of an array index or an HTTP status inside a template literal.\<close>

definition digit_char :: "nat \<Rightarrow> char" where
  "digit_char d = ''0123456789'' ! d"

function show_nat :: "nat \<Rightarrow> string" where
  "show_nat n = (if n < 10 then [digit_char n] else show_nat (n div 10) @ [digit_char (n mod 10)])"
  by pat_completeness auto
termination
  by (relation "measure (\<lambda>n. n)") auto

declare show_nat.simps [simp del]

definition show_int :: "int \<Rightarrow> string" where
  "show_int i = (if i < 0 then ''-'' @ show_nat (nat (- i)) else show_nat (nat i))"

text \<open>\<^verbatim>\<open>Array.prototype.join\<close> with a separator.\<close>

fun join :: "string \<Rightarrow> string list \<Rightarrow> string" where
  "join sep [] = []"
| "join sep [s] = s"
| "join sep (s # t # ss) = s @ sep @ join sep (t # ss)"

text \<open>
  \<^verbatim>\<open>String(v)\<close>, which a template literal applies to an interpolated value. Inside an
  array \<^verbatim>\<open>null\<close> renders as the empty string. A number is rendered in decimal digits,
  which is what \<^verbatim>\<open>String\<close> gives for an integer of magnitude below \<^verbatim>\<open>1e21\<close>; from there
  on JavaScript switches to exponent notation, which this rendering does not follow. The
  only use is the text after \<^verbatim>\<open>got\<close> in the purpose-mismatch message.
\<close>

fun js_toString :: "json \<Rightarrow> string" where
  "js_toString JNull = ''null''"
| "js_toString (JBool b) = (if b then ''true'' else ''false'')"
| "js_toString (JNum n) = show_int n"
| "js_toString (JStr s) = s"
| "js_toString (JArr xs) =
     join '','' (map (\<lambda>x. if x = JNull then [] else js_toString x) xs)"
| "js_toString (JObj _) = ''[object Object]''"

fun template_json :: "json option \<Rightarrow> string" where
  "template_json None = ''undefined''"
| "template_json (Some v) = js_toString v"

fun template_str :: "string option \<Rightarrow> string" where
  "template_str None = ''undefined''"
| "template_str (Some s) = s"

section \<open>directory.ts: structure validation\<close>

text \<open>
  The anonymous result type \<^verbatim>\<open>{ isValid: boolean; error?: string }\<close>: \<open>Valid\<close> is
  \<^verbatim>\<open>{ isValid: true }\<close>, \<open>Invalid e\<close> is \<^verbatim>\<open>{ isValid: false, error: e }\<close>.
\<close>

datatype check = Valid | Invalid string

definition validateJWK :: "json \<Rightarrow> check" where
  "validateJWK key =
     (if \<not> truthy key \<or> typeof (Some key) \<noteq> ''object'' then
        Invalid ''Key is not an object''
      else if get_prop key ''kty'' \<noteq> Some (JStr ''OKP'') then
        Invalid (''Key type must be '' @ dq @ ''OKP'' @ dq @ '' for Ed25519'')
      else if get_prop key ''crv'' \<noteq> Some (JStr ''Ed25519'') then
        Invalid (''Curve must be '' @ dq @ ''Ed25519'' @ dq)
      else if \<not> truthy_opt (get_prop key ''x'') \<or> typeof (get_prop key ''x'') \<noteq> ''string'' then
        Invalid (''Missing or invalid '' @ dq @ ''x'' @ dq @ '' coordinate'')
      else if \<not> truthy_opt (get_prop key ''kid'') \<or> typeof (get_prop key ''kid'') \<noteq> ''string'' then
        Invalid (''Missing or invalid '' @ dq @ ''kid'' @ dq @ '' (Key ID)'')
      else if get_prop key ''nbf'' \<noteq> None \<and> typeof (get_prop key ''nbf'') \<noteq> ''number'' then
        Invalid (''Invalid '' @ dq @ ''nbf'' @ dq @ '' (Not Before) timestamp'')
      else if get_prop key ''exp'' \<noteq> None \<and> typeof (get_prop key ''exp'') \<noteq> ''number'' then
        Invalid (''Invalid '' @ dq @ ''exp'' @ dq @ '' (Expiration) timestamp'')
      else Valid)"

text \<open>
  The \<^verbatim>\<open>for\<close> loop of \<^verbatim>\<open>validateDirectoryStructure\<close> from index \<open>i\<close> over the keys that
  remain: it returns at the first key that \<^verbatim>\<open>validateJWK\<close> refuses.
\<close>

fun validateKeysFrom :: "nat \<Rightarrow> json list \<Rightarrow> check" where
  "validateKeysFrom i [] = Valid"
| "validateKeysFrom i (key # rest) =
     (case validateJWK key of
        Invalid e \<Rightarrow> Invalid (''Invalid key at index '' @ show_nat i @ '': '' @ e)
      | Valid \<Rightarrow> validateKeysFrom (Suc i) rest)"

definition validateDirectoryStructure :: "json \<Rightarrow> check" where
  "validateDirectoryStructure data =
     (if \<not> truthy data \<or> typeof (Some data) \<noteq> ''object'' then
        Invalid ''Directory data is not an object''
      else case get_prop data ''keys'' of
        Some (JArr ks) \<Rightarrow>
          (if length ks = 0 then Invalid ''Directory keys array cannot be empty''
           else validateKeysFrom 0 ks)
      | _ \<Rightarrow> Invalid (''Directory must contain a '' @ dq @ ''keys'' @ dq @ '' array''))"

section \<open>directory.ts: the cache, the network and resolution\<close>

text \<open>
  What \<^verbatim>\<open>fetch\<close> resolves to. \<open>jsonBody\<close> is the outcome of \<^verbatim>\<open>response.json()\<close>: \<open>Inl\<close>
  is a rejection carrying the message of the thrown error, \<open>Inr\<close> the parsed body.
  A thrown value is represented by the text that
  \<^verbatim>\<open>error instanceof Error ? error.message : String(error)\<close> extracts from it.
\<close>

record Response =
  ok :: bool
  status :: nat
  statusText :: string
  jsonBody :: "string + json"

text \<open>An entry of \<^verbatim>\<open>directoryCache\<close>: \<^verbatim>\<open>{ data, timestamp }\<close>.\<close>

record cache_entry =
  data :: json
  timestamp :: int

record DirectoryResult =
  success :: bool
  directory :: "json option"
  error :: "string option"
  url :: string
  timestamp :: int

text \<open>
  The state the module reads and writes. \<open>directoryCache\<close> is the module-level
  \<^verbatim>\<open>Map\<close>, kept as an association list in insertion order (\<^verbatim>\<open>Map.set\<close> on a present key
  replaces the value in place, as \<open>AList.update\<close> does). \<open>fetchCalls\<close> records the URL of
  every call of \<^verbatim>\<open>fetch\<close>, which is what the tests count with
  \<^verbatim>\<open>toHaveBeenCalledTimes\<close>. \<open>console\<close> holds the lines written by \<^verbatim>\<open>console.error\<close>.
\<close>

record world =
  directoryCache :: "(string \<times> cache_entry) list"
  fetchCalls :: "string list"
  console :: "string list"

text \<open>
  The test of line 28, \<^verbatim>\<open>cached && timestamp - cached.timestamp < cacheTimeout\<close>: the
  entry when the test passes.
\<close>

definition freshEntry :: "(string \<times> cache_entry) list \<Rightarrow> string \<Rightarrow> int \<Rightarrow> int \<Rightarrow> cache_entry option" where
  "freshEntry cache u ts cacheTimeout =
     (case map_of cache u of
        None \<Rightarrow> None
      | Some cached \<Rightarrow>
          if ts - cache_entry.timestamp cached < cacheTimeout then Some cached else None)"

text \<open>The default value of the parameter \<^verbatim>\<open>cacheTimeout\<close>, taken when the argument is absent.\<close>

definition cacheTimeoutOrDefault :: "int option \<Rightarrow> int" where
  "cacheTimeoutOrDefault arg = (case arg of None \<Rightarrow> 60 * 60 * 1000 | Some t \<Rightarrow> t)"

text \<open>
  \<^verbatim>\<open>fetchSignaturesDirectory\<close>. \<open>fetch\<close> is the global \<^verbatim>\<open>fetch\<close> at the time of the call
  (\<open>Inl\<close>: the promise rejects), \<open>now\<close> is \<^verbatim>\<open>Date.now()\<close>, and an absent
  \<open>cacheTimeout\<close> argument takes the default of one hour. Every exception raised in the
  \<^verbatim>\<open>try\<close> block ends in the \<^verbatim>\<open>catch\<close> block's result.
\<close>

definition fetchSignaturesDirectory ::
  "(string \<Rightarrow> string + Response) \<Rightarrow> int \<Rightarrow> world \<Rightarrow> string \<Rightarrow> int option \<Rightarrow> DirectoryResult \<times> world" where
  "fetchSignaturesDirectory fetch now w u cacheTimeoutArg =
     (let cacheTimeout = cacheTimeoutOrDefault cacheTimeoutArg;
          ts = now;
          caught = (\<lambda>msg. \<lparr>success = False, directory = None,
                      error = Some (''Error fetching directory: '' @ msg), url = u, timestamp = ts\<rparr>)
      in case freshEntry (directoryCache w) u ts cacheTimeout of
        Some cached \<Rightarrow>
          (\<lparr>success = True, directory = Some (data cached), error = None, url = u,
            timestamp = cache_entry.timestamp cached\<rparr>, w)
      | None \<Rightarrow>
          (let w1 = w\<lparr>fetchCalls := fetchCalls w @ [u]\<rparr> in
           case fetch u of
             Inl msg \<Rightarrow> (caught msg, w1)
           | Inr response \<Rightarrow>
               if \<not> ok response then
                 (\<lparr>success = False, directory = None,
                   error = Some (''Failed to fetch directory: '' @ show_nat (status response)
                                 @ '' '' @ statusText response),
                   url = u, timestamp = ts\<rparr>, w1)
               else
                 (case jsonBody response of
                    Inl msg \<Rightarrow> (caught msg, w1)
                  | Inr body \<Rightarrow>
                      (case validateDirectoryStructure body of
                         Invalid e \<Rightarrow>
                           (\<lparr>success = False, directory = None,
                             error = Some (''Invalid directory structure: '' @ e),
                             url = u, timestamp = ts\<rparr>, w1)
                       | Valid \<Rightarrow>
                           (\<lparr>success = True, directory = Some body, error = None, url = u,
                             timestamp = ts\<rparr>,
                            w1\<lparr>directoryCache :=
                                 AList.update u \<lparr>data = body, timestamp = ts\<rparr> (directoryCache w1)\<rparr>)))))"

text \<open>
  The message of the \<^verbatim>\<open>TypeError\<close> that a property read on \<^verbatim>\<open>null\<close> or
  \<^verbatim>\<open>undefined\<close>, or a call of a non-function, throws. Its wording belongs to the engine
  (the V8 engine says \<^verbatim>\<open>Cannot read properties of null\<close> and names the property); this constant
  stands for it, and nothing below depends on the wording.
\<close>

definition typeErrorMessage :: string where
  "typeErrorMessage = ''TypeError''"

text \<open>
  \<^verbatim>\<open>keys.find((key) => key.kid === kid)\<close>: the first key whose \<^verbatim>\<open>kid\<close> is the string
  \<open>kid\<close>; reading \<^verbatim>\<open>kid\<close> of \<^verbatim>\<open>null\<close> throws.
\<close>

fun findKid :: "json list \<Rightarrow> string \<Rightarrow> string + json option" where
  "findKid [] kid = Inr None"
| "findKid (key # rest) kid =
     (if key = JNull then Inl typeErrorMessage
      else if get_prop key ''kid'' = Some (JStr kid) then Inr (Some key)
      else findKid rest kid)"

definition findKeyById :: "json \<Rightarrow> string \<Rightarrow> string + json option" where
  "findKeyById dir kid =
     (case get_prop dir ''keys'' of
        Some (JArr ks) \<Rightarrow> findKid ks kid
      | _ \<Rightarrow> Inl typeErrorMessage)"

definition clearDirectoryCache :: "world \<Rightarrow> world" where
  "clearDirectoryCache w = w\<lparr>directoryCache := []\<rparr>"

definition getCacheStats :: "world \<Rightarrow> nat \<times> string list" where
  "getCacheStats w = (length (directoryCache w), map fst (directoryCache w))"

section \<open>signature.ts: header parsing\<close>

text \<open>
  The request as the code sees it. \<open>headers\<close> is the \<^verbatim>\<open>Headers\<close> object: names in
  lower case, one combined value per name; \<^verbatim>\<open>headers.get(name)\<close> with a lower-case
  name is a lookup, \<open>None\<close> being \<^verbatim>\<open>null\<close>. \<open>requestMethod\<close> is \<^verbatim>\<open>request.method\<close>.
\<close>

record Request =
  headers :: "(string \<times> string) list"
  url :: string
  requestMethod :: string

definition headers_get :: "Request \<Rightarrow> string \<Rightarrow> string option" where
  "headers_get request name = map_of (headers request) name"

record SignatureComponents =
  signature :: string
  signatureInput :: string
  keyId :: "string option"
  algorithm :: "string option"
  created :: "string option"
  expires :: "string option"
  nonce :: "string option"
  tag :: "string option"

text \<open>
  \<^verbatim>\<open>String.prototype.match\<close> with a pattern that has one capture group: the capture
  of the leftmost position at which the pattern matches. \<open>m\<close> matches the pattern anchored
  at the start of its argument.
\<close>

fun matchFirst :: "(string \<Rightarrow> string option) \<Rightarrow> string \<Rightarrow> string option" where
  "matchFirst m [] = m []"
| "matchFirst m (c # cs) =
     (case m (c # cs) of Some v \<Rightarrow> Some v | None \<Rightarrow> matchFirst m cs)"

text \<open>
  \<^verbatim>\<open>name="([^"]+)"\<close> anchored: the literal prefix, then the longest run of characters
  other than the double quote, which must be non-empty and be followed by a double quote.
\<close>

definition quotedAt :: "string \<Rightarrow> string \<Rightarrow> string option" where
  "quotedAt name s =
     (let pre = name @ ''='' @ dq in
      if take (length pre) s \<noteq> pre then None
      else
        let rest = drop (length pre) s;
            v = takeWhile (\<lambda>c. [c] \<noteq> dq) rest;
            after = dropWhile (\<lambda>c. [c] \<noteq> dq) rest
        in if v \<noteq> [] \<and> after \<noteq> [] then Some v else None)"

text \<open>\<^verbatim>\<open>name=(\d+)\<close> anchored: the literal prefix, then the longest non-empty run of digits.\<close>

definition digitsAt :: "string \<Rightarrow> string \<Rightarrow> string option" where
  "digitsAt name s =
     (let pre = name @ ''='' in
      if take (length pre) s \<noteq> pre then None
      else
        let v = takeWhile (\<lambda>c. c \<in> set ''0123456789'') (drop (length pre) s)
        in if v \<noteq> [] then Some v else None)"

definition extractSignatureComponents :: "Request \<Rightarrow> SignatureComponents option" where
  "extractSignatureComponents request =
     (case (headers_get request ''signature'', headers_get request ''signature-input'') of
        (Some sig, Some sigInput) \<Rightarrow>
          if sig = [] \<or> sigInput = [] then None
          else Some \<lparr>signature = sig, signatureInput = sigInput,
                 keyId = matchFirst (quotedAt ''keyid'') sigInput,
                 algorithm = matchFirst (quotedAt ''alg'') sigInput,
                 created = matchFirst (digitsAt ''created'') sigInput,
                 expires = matchFirst (digitsAt ''expires'') sigInput,
                 nonce = matchFirst (quotedAt ''nonce'') sigInput,
                 tag = matchFirst (quotedAt ''tag'') sigInput\<rparr>
      | _ \<Rightarrow> None)"

section \<open>signature.ts: verification\<close>

text \<open>
  What \<^verbatim>\<open>verifierFromJWK\<close> hands to \<^verbatim>\<open>verify\<close>: the library's verifier, or the
  function that \<^verbatim>\<open>mockWebBotAuth.verifierFromJWK\<close> builds in the test environment.
\<close>

datatype 'v verifier = MockVerifier | LibVerifier 'v

text \<open>
  Everything outside the module that one call of \<^verbatim>\<open>validateWebBotAuth\<close> reads:
  \<open>now\<close> is \<^verbatim>\<open>Date.now()\<close> in the resolver, \<open>fetch\<close> the global \<^verbatim>\<open>fetch\<close>, \<open>NODE_ENV\<close> is
  \<^verbatim>\<open>process.env.NODE_ENV\<close>, \<open>verifierFromJWK\<close> and \<open>verify\<close> are the two imports from the
  \<^verbatim>\<open>web-bot-auth\<close> package (\<open>Inl\<close>: the call throws or its promise rejects, with that
  message), and \<open>isoNow\<close> is \<^verbatim>\<open>new Date().toISOString()\<close> on the success path.
\<close>

record 'v env =
  now :: int
  fetch :: "string \<Rightarrow> string + Response"
  NODE_ENV :: "string option"
  verifierFromJWK :: "json \<Rightarrow> string + 'v"
  verify :: "Request \<Rightarrow> 'v verifier \<Rightarrow> string + unit"
  isoNow :: string

definition mock_verify :: "'v env \<Rightarrow> Request \<Rightarrow> 'v verifier \<Rightarrow> string + unit" where
  "mock_verify e request vf =
     (if NODE_ENV e = Some ''test'' then Inl ''Mock verification failure''
      else verify e request vf)"

definition mock_verifierFromJWK :: "'v env \<Rightarrow> json \<Rightarrow> string + 'v verifier" where
  "mock_verifierFromJWK e jwk =
     (if NODE_ENV e = Some ''test'' then Inr MockVerifier
      else case verifierFromJWK e jwk of Inl msg \<Rightarrow> Inl msg | Inr v \<Rightarrow> Inr (LibVerifier v))"

text \<open>
  \<^verbatim>\<open>verifySignatureWithWebBotAuth\<close>: any exception of the two calls is logged with
  \<^verbatim>\<open>console.error\<close> and answered with \<^verbatim>\<open>false\<close>.
\<close>

definition verifySignatureWithWebBotAuth ::
  "'v env \<Rightarrow> world \<Rightarrow> Request \<Rightarrow> json \<Rightarrow> json \<Rightarrow> bool \<times> world" where
  "verifySignatureWithWebBotAuth e w request key dir =
     (let caught = (\<lambda>msg. (False, w\<lparr>console := console w @ [''Signature verification error: '' @ msg]\<rparr>))
      in case mock_verifierFromJWK e key of
        Inl msg \<Rightarrow> caught msg
      | Inr vf \<Rightarrow>
          (case mock_verify e request vf of
             Inl msg \<Rightarrow> caught msg
           | Inr _ \<Rightarrow> (True, w)))"

record ValidationConfig =
  directoryUrl :: string
  purpose :: "string option"
  cacheTimeout :: "int option"

record Details =
  signatureFound :: bool
  directoryFetched :: bool
  keyMatched :: bool
  signatureValid :: bool

text \<open>
  \<^verbatim>\<open>metadata\<close>. \<open>purpose\<close> is the directory's \<^verbatim>\<open>purpose\<close> property as parsed, which the
  structure validation does not constrain.
\<close>

record Metadata =
  kid :: "string option"
  purpose :: "json option"
  timestamp :: "string option"

record ValidationResult =
  isValid :: bool
  error :: "string option"
  details :: Details
  metadata :: "Metadata option"

text \<open>
  The test of line 96, \<^verbatim>\<open>config.purpose && directory.purpose !== config.purpose\<close>: an
  absent or empty configured purpose is falsy, and \<^verbatim>\<open>!==\<close> holds unless the directory's
  purpose is that very string.
\<close>

definition purposeMismatch :: "ValidationConfig \<Rightarrow> json \<Rightarrow> bool" where
  "purposeMismatch config dir =
     (case ValidationConfig.purpose config of
        None \<Rightarrow> False
      | Some p \<Rightarrow> p \<noteq> [] \<and> get_prop dir ''purpose'' \<noteq> Some (JStr p))"

text \<open>\<^verbatim>\<open>s || ""\<close> on an optional string.\<close>

fun orEmpty :: "string option \<Rightarrow> string" where
  "orEmpty None = []"
| "orEmpty (Some s) = (if s = [] then [] else s)"

text \<open>
  \<^verbatim>\<open>validateWebBotAuth\<close>. The \<^verbatim>\<open>details\<close> object is updated step by step; each return
  carries it as it is at that point. The one statement of the \<^verbatim>\<open>try\<close> block that can
  throw is the key lookup, whose exception the \<^verbatim>\<open>catch\<close> block turns into a
  \<^verbatim>\<open>Validation error\<close> result. After the test of line 64 the directory is present, so
  the \<open>None\<close> case below it is never taken.
\<close>

definition validateWebBotAuth ::
  "'v env \<Rightarrow> world \<Rightarrow> Request \<Rightarrow> ValidationConfig \<Rightarrow> ValidationResult \<times> world" where
  "validateWebBotAuth e w request config =
     (let details0 = \<lparr>signatureFound = False, directoryFetched = False,
                      keyMatched = False, signatureValid = False\<rparr>
      in case extractSignatureComponents request of
        None \<Rightarrow>
          (\<lparr>isValid = False, error = Some ''No HTTP Message Signature headers found'',
            details = details0, metadata = None\<rparr>, w)
      | Some signatureComponents \<Rightarrow>
          (let details1 = details0\<lparr>signatureFound := True\<rparr>;
               (directoryResult, w1) =
                 fetchSignaturesDirectory (fetch e) (now e) w (directoryUrl config) (cacheTimeout config);
               failed = \<lparr>isValid = False,
                         error = Some (''Failed to fetch signatures directory: ''
                                       @ template_str (DirectoryResult.error directoryResult)),
                         details = details1, metadata = None\<rparr>
           in if \<not> success directoryResult \<or> \<not> truthy_opt (directory directoryResult) then
                (failed, w1)
              else case directory directoryResult of
                None \<Rightarrow> (failed, w1)
              | Some dir \<Rightarrow>
                 (let details2 = details1\<lparr>directoryFetched := True\<rparr> in
                  case findKeyById dir (orEmpty (keyId signatureComponents)) of
                    Inl msg \<Rightarrow>
                      (\<lparr>isValid = False, error = Some (''Validation error: '' @ msg),
                        details = details2, metadata = None\<rparr>, w1)
                  | Inr None \<Rightarrow>
                      (\<lparr>isValid = False,
                        error = Some (''No matching key found for kid: ''
                                      @ template_str (keyId signatureComponents)),
                        details = details2, metadata = None\<rparr>, w1)
                  | Inr (Some key) \<Rightarrow>
                      (let details3 = details2\<lparr>keyMatched := True\<rparr>;
                           (sigValid, w2) = verifySignatureWithWebBotAuth e w1 request key dir
                       in if \<not> sigValid then
                            (\<lparr>isValid = False, error = Some ''Signature verification failed'',
                              details = details3\<lparr>signatureValid := False\<rparr>, metadata = None\<rparr>, w2)
                          else
                            (let details4 = details3\<lparr>signatureValid := True\<rparr> in
                             if purposeMismatch config dir then
                               (\<lparr>isValid = False,
                                 error = Some (''Purpose mismatch: expected '' @ dq
                                               @ template_str (ValidationConfig.purpose config) @ dq
                                               @ '', got '' @ dq
                                               @ template_json (get_prop dir ''purpose'') @ dq),
                                 details = details4\<lparr>signatureValid := True\<rparr>, metadata = None\<rparr>, w2)
                             else
                               (\<lparr>isValid = True, error = None, details = details4,
                                 metadata = Some \<lparr>kid = keyId signatureComponents,
                                                  purpose = get_prop dir ''purpose'',
                                                  timestamp = Some (isoNow e)\<rparr>\<rparr>, w2))))))"

section \<open>Sequences of calls\<close>

definition initialWorld :: world where
  "initialWorld = \<lparr>directoryCache = [], fetchCalls = [], console = []\<rparr>"

text \<open>
  The resolver puts in the cache the very object it returns: on a fresh fetch lines 68-78
  store \<^verbatim>\<open>directory\<close> in the \<^verbatim>\<open>Map\<close> and return it, and on a hit lines 29-34 return
  \<^verbatim>\<open>cached.data\<close>. No copy is made and nothing is frozen, so a caller that was handed a
  directory can write to the object the cache holds. A run of calls therefore keeps, beside
  the module's state, the URLs whose cached object is in a caller's hands.
\<close>

record session =
  moduleState :: world
  handedOut :: "string list"

definition initialSession :: session where
  "initialSession = \<lparr>moduleState = initialWorld, handedOut = []\<rparr>"

text \<open>
  What a call of the resolver does with the entry of its URL: it answers from the entry
  (line 28), or it replaces the entry by the newly parsed object (line 71), or it fails and
  leaves the entry alone.
\<close>

datatype resolution = Hit | Stored | Failed

definition resolutionOf ::
  "(string \<Rightarrow> string + Response) \<Rightarrow> int \<Rightarrow> world \<Rightarrow> string \<Rightarrow> int option \<Rightarrow> resolution" where
  "resolutionOf f t w u ct =
     (if freshEntry (directoryCache w) u t (cacheTimeoutOrDefault ct) \<noteq> None then Hit
      else if success (fst (fetchSignaturesDirectory f t w u ct)) then Stored
      else Failed)"

text \<open>
  A write through a reference to the object cached under \<open>u\<close>, such as
  \<^verbatim>\<open>directory.keys.length = 0\<close> or \<^verbatim>\<open>delete directory.keys[0].kid\<close>: the object stays an
  object, its properties become \<open>ps\<close>, and the entry's timestamp is not touched.
\<close>

definition writeEntry ::
  "string \<Rightarrow> (string \<times> json) list \<Rightarrow> (string \<times> cache_entry) list \<Rightarrow> (string \<times> cache_entry) list" where
  "writeEntry u ps cache =
     map (\<lambda>entry. if fst entry = u then (fst entry, (snd entry)\<lparr>data := JObj ps\<rparr>) else entry) cache"

text \<open>
  The calls that touch the module's state.

  \<^item> \<open>Fetch\<close>: a caller calls \<^verbatim>\<open>fetchSignaturesDirectory\<close>. On success the directory of
    the result is the object now cached under the URL, so that object is in the caller's
    hands.
  \<^item> \<open>Validate\<close>: a caller calls \<^verbatim>\<open>validateWebBotAuth\<close>. The resolver's result stays
    inside the function, so when the resolver stores a new object under the URL, that
    object is in no caller's hands. (The function passes the matched key to the library,
    which is taken to read it only, and the directory's purpose to its caller, on which
    no invariant of the keys depends.)
  \<^item> \<open>Clear\<close>: \<^verbatim>\<open>clearDirectoryCache\<close>; no object is cached afterwards.
  \<^item> \<open>Write\<close>: a caller writes to the directory it was handed for the URL. The cache
    changes only if that object is the one cached under the URL.
\<close>

datatype 'v call =
    Fetch "string \<Rightarrow> string + Response" int string "int option"
  | Validate "'v env" Request ValidationConfig
  | Clear
  | Write string "(string \<times> json) list"

fun run :: "'v call \<Rightarrow> session \<Rightarrow> session" where
  "run (Fetch f t u ct) s =
     \<lparr>moduleState = snd (fetchSignaturesDirectory f t (moduleState s) u ct),
       handedOut =
         (if success (fst (fetchSignaturesDirectory f t (moduleState s) u ct))
          then u # handedOut s else handedOut s)\<rparr>"
| "run (Validate e request config) s =
     \<lparr>moduleState = snd (validateWebBotAuth e (moduleState s) request config),
       handedOut =
         (if extractSignatureComponents request \<noteq> None \<and>
             resolutionOf (fetch e) (now e) (moduleState s) (directoryUrl config)
               (cacheTimeout config) = Stored
          then removeAll (directoryUrl config) (handedOut s) else handedOut s)\<rparr>"
| "run Clear s = \<lparr>moduleState = clearDirectoryCache (moduleState s), handedOut = []\<rparr>"
| "run (Write u ps) s =
     (if u \<in> set (handedOut s)
      then s\<lparr>moduleState :=
               (moduleState s)\<lparr>directoryCache := writeEntry u ps (directoryCache (moduleState s))\<rparr>\<rparr>
      else s)"

fun runAll :: "'v call list \<Rightarrow> session \<Rightarrow> session" where
  "runAll [] s = s"
| "runAll (c # cs) s = runAll cs (run c s)"

text \<open>A write that leaves a directory which still passes the validator; any other call.\<close>

fun writeIsValid :: "'v call \<Rightarrow> bool" where
  "writeIsValid (Write u ps) = (validateDirectoryStructure (JObj ps) = Valid)"
| "writeIsValid _ = True"

section \<open>The properties of the specification, as predicates\<close>

text \<open>
  The Key invariants of the data model: type \<^verbatim>\<open>OKP\<close>, curve \<^verbatim>\<open>Ed25519\<close>, key material and
  identifier present as strings, and the two optional timestamps numbers when present.
\<close>

fun isString :: "json option \<Rightarrow> bool" where
  "isString (Some (JStr _)) = True"
| "isString _ = False"

fun numberIfPresent :: "json option \<Rightarrow> bool" where
  "numberIfPresent None = True"
| "numberIfPresent (Some (JNum _)) = True"
| "numberIfPresent _ = False"

definition keyInvariant :: "json \<Rightarrow> bool" where
  "keyInvariant key =
     (get_prop key ''kty'' = Some (JStr ''OKP'') \<and>
      get_prop key ''crv'' = Some (JStr ''Ed25519'') \<and>
      isString (get_prop key ''x'') \<and>
      isString (get_prop key ''kid'') \<and>
      numberIfPresent (get_prop key ''nbf'') \<and>
      numberIfPresent (get_prop key ''exp''))"

text \<open>The Directory invariant: a non-empty key array, every key valid on its own.\<close>

definition directoryInvariant :: "json \<Rightarrow> bool" where
  "directoryInvariant d =
     (case get_prop d ''keys'' of
        Some (JArr ks) \<Rightarrow> ks \<noteq> [] \<and> list_all keyInvariant ks
      | _ \<Rightarrow> False)"

definition cacheInvariant :: "(string \<times> cache_entry) list \<Rightarrow> bool" where
  "cacheInvariant cache = list_all (\<lambda>entry. directoryInvariant (data (snd entry))) cache"

text \<open>What the code itself establishes: every cached directory has passed the validator.\<close>

definition cacheValidated :: "(string \<times> cache_entry) list \<Rightarrow> bool" where
  "cacheValidated cache =
     list_all (\<lambda>entry. validateDirectoryStructure (data (snd entry)) = Valid) cache"

text \<open>
  The violations that the specification's sentence on key validation lists: a wrong key
  type, a wrong curve, or key material or identifier that is missing or not a string.
\<close>

definition violatesKeyInvariants :: "json \<Rightarrow> bool" where
  "violatesKeyInvariants key =
     (get_prop key ''kty'' \<noteq> Some (JStr ''OKP'') \<or>
      get_prop key ''crv'' \<noteq> Some (JStr ''Ed25519'') \<or>
      \<not> isString (get_prop key ''x'') \<or>
      \<not> isString (get_prop key ''kid''))"

text \<open>
  A key is outside its validity window at instant \<open>t\<close> when its not-before lies in the
  future or its not-after in the past.
\<close>

definition outsideValidityWindow :: "int \<Rightarrow> json \<Rightarrow> bool" where
  "outsideValidityWindow t key =
     ((case get_prop key ''nbf'' of Some (JNum n) \<Rightarrow> t < n | _ \<Rightarrow> False) \<or>
      (case get_prop key ''exp'' of Some (JNum x) \<Rightarrow> x < t | _ \<Rightarrow> False))"

text \<open>
  The fetch of \<open>u\<close> fails: the request is rejected, the response is not ok, the body does
  not parse, or the parsed body is not a valid directory.
\<close>

definition fetchFails :: "(string \<Rightarrow> string + Response) \<Rightarrow> string \<Rightarrow> bool" where
  "fetchFails f u =
     (case f u of
        Inl msg \<Rightarrow> True
      | Inr response \<Rightarrow>
          \<not> ok response \<or>
          (case jsonBody response of
             Inl msg \<Rightarrow> True
           | Inr body \<Rightarrow> validateDirectoryStructure body \<noteq> Valid))"

section \<open>Concrete inputs\<close>

text \<open>The directory, request and configuration of the repository's tests.\<close>

definition testKey :: json where
  "testKey = JObj [(''kty'', JStr ''OKP''), (''crv'', JStr ''Ed25519''),
                   (''kid'', JStr ''test-key''), (''x'', JStr ''test-public-key'')]"

definition testDirectory :: json where
  "testDirectory = JObj [(''keys'', JArr [testKey]), (''purpose'', JStr ''test'')]"

text \<open>The same key with the validity window of the directory tests' first key.\<close>

definition expiredKey :: json where
  "expiredKey = JObj [(''kty'', JStr ''OKP''), (''crv'', JStr ''Ed25519''),
                      (''kid'', JStr ''test-key''), (''x'', JStr ''test-public-key''),
                      (''nbf'', JNum 1743465600000), (''exp'', JNum 1743552000000)]"

definition expiredDirectory :: json where
  "expiredDirectory = JObj [(''keys'', JArr [expiredKey]), (''purpose'', JStr ''test'')]"

text \<open>Two keys with the same identifier, the expired one first.\<close>

definition duplicateKidDirectory :: json where
  "duplicateKidDirectory = JObj [(''keys'', JArr [expiredKey, testKey]), (''purpose'', JStr ''test'')]"

text \<open>The properties of the test directory after \<^verbatim>\<open>directory.keys.length = 0\<close>.\<close>

definition emptiedDirectory :: "(string \<times> json) list" where
  "emptiedDirectory = [(''keys'', JArr []), (''purpose'', JStr ''test'')]"

definition rsaKey :: json where
  "rsaKey = JObj [(''kty'', JStr ''RSA''), (''kid'', JStr ''test-key'')]"

definition rsaDirectory :: json where
  "rsaDirectory = JObj [(''keys'', JArr [testKey, rsaKey])]"

definition testUrl :: string where
  "testUrl = ''https://example.com/.well-known/http-message-signatures-directory''"

definition testConfig :: ValidationConfig where
  "testConfig = \<lparr>directoryUrl = testUrl, purpose = Some ''test'', cacheTimeout = Some 1000\<rparr>"



definition testSignatureInput :: string where
  "testSignatureInput =
     ''keyid='' @ dq @ ''test-key'' @ dq @ '',alg='' @ dq @ ''ed25519'' @ dq
     @ '',created=1234567890,expires=1234567899,tag='' @ dq @ ''web-bot-auth'' @ dq"

definition signedRequest :: Request where
  "signedRequest =
     \<lparr>headers = [(''signature'', ''test-signature-value''),
                 (''signature-input'', testSignatureInput)],
       url = ''https://example.com/test'', requestMethod = ''GET''\<rparr>"

definition unsignedRequest :: Request where
  "unsignedRequest =
     \<lparr>headers = [(''content-type'', ''application/json'')],
       url = ''https://example.com/test'', requestMethod = ''GET''\<rparr>"

definition fetchOk :: "json \<Rightarrow> string \<Rightarrow> string + Response" where
  "fetchOk body u = Inr \<lparr>ok = True, status = 200, statusText = ''OK'', jsonBody = Inr body\<rparr>"

definition fetchNotFound :: "string \<Rightarrow> string + Response" where
  "fetchNotFound u =
     Inr \<lparr>ok = False, status = 404, statusText = ''Not Found'', jsonBody = Inl ''Unexpected end of JSON input''\<rparr>"

definition fetchNetworkError :: "string \<Rightarrow> string + Response" where
  "fetchNetworkError u = Inl ''Network error''"

text \<open>The state after the test directory was fetched and cached at time 0.\<close>

definition cachedWorld :: world where
  "cachedWorld =
     \<lparr>directoryCache = [(testUrl, \<lparr>data = testDirectory, timestamp = 0\<rparr>)],
       fetchCalls = [testUrl], console = []\<rparr>"

text \<open>
  A caller resolves the test directory and then empties the key array of the directory
  it was returned.
\<close>

definition fetchThenWrite :: "unit call list" where
  "fetchThenWrite =
     [Fetch (fetchOk testDirectory) 0 testUrl (Some 1000), Write testUrl emptiedDirectory]"

text \<open>A library that accepts every key and every request.\<close>

definition acceptingVerifierFromJWK :: "json \<Rightarrow> string + unit" where
  "acceptingVerifierFromJWK jwk = Inr ()"

definition acceptingVerify :: "Request \<Rightarrow> unit verifier \<Rightarrow> string + unit" where
  "acceptingVerify request vf = Inr ()"

definition productionEnv :: "(string \<Rightarrow> string + Response) \<Rightarrow> int \<Rightarrow> unit env" where
  "productionEnv f t =
     \<lparr>now = t, fetch = f, NODE_ENV = Some ''production'',
       verifierFromJWK = acceptingVerifierFromJWK, verify = acceptingVerify,
       isoNow = ''2026-11-02T00:00:00.000Z''\<rparr>"

definition testEnv :: "(string \<Rightarrow> string + Response) \<Rightarrow> int \<Rightarrow> unit env" where
  "testEnv f t = (productionEnv f t)\<lparr>NODE_ENV := Some ''test''\<rparr>"

section \<open>The paths through the resolver\<close>

lemma fetch_hit:
  assumes "freshEntry (directoryCache w) u t (cacheTimeoutOrDefault ct) = Some cached"
  shows "fetchSignaturesDirectory f t w u ct =
     (\<lparr>success = True, directory = Some (data cached), error = None, url = u,
       timestamp = cache_entry.timestamp cached\<rparr>, w)"
  using assms by (simp add: fetchSignaturesDirectory_def Let_def)

lemma fetch_rejected:
  assumes "freshEntry (directoryCache w) u t (cacheTimeoutOrDefault ct) = None"
    and "f u = Inl msg"
  shows "fetchSignaturesDirectory f t w u ct =
     (\<lparr>success = False, directory = None, error = Some (''Error fetching directory: '' @ msg),
       url = u, timestamp = t\<rparr>, w\<lparr>fetchCalls := fetchCalls w @ [u]\<rparr>)"
  using assms by (simp add: fetchSignaturesDirectory_def Let_def)

lemma fetch_not_ok:
  assumes "freshEntry (directoryCache w) u t (cacheTimeoutOrDefault ct) = None"
    and "f u = Inr response" and "\<not> ok response"
  shows "fetchSignaturesDirectory f t w u ct =
     (\<lparr>success = False, directory = None,
       error = Some (''Failed to fetch directory: '' @ show_nat (status response) @ '' ''
                     @ statusText response),
       url = u, timestamp = t\<rparr>, w\<lparr>fetchCalls := fetchCalls w @ [u]\<rparr>)"
  using assms by (simp add: fetchSignaturesDirectory_def Let_def)

lemma fetch_bad_json:
  assumes "freshEntry (directoryCache w) u t (cacheTimeoutOrDefault ct) = None"
    and "f u = Inr response" and "ok response" and "jsonBody response = Inl msg"
  shows "fetchSignaturesDirectory f t w u ct =
     (\<lparr>success = False, directory = None, error = Some (''Error fetching directory: '' @ msg),
       url = u, timestamp = t\<rparr>, w\<lparr>fetchCalls := fetchCalls w @ [u]\<rparr>)"
  using assms by (simp add: fetchSignaturesDirectory_def Let_def)

lemma fetch_invalid_structure:
  assumes "freshEntry (directoryCache w) u t (cacheTimeoutOrDefault ct) = None"
    and "f u = Inr response" and "ok response" and "jsonBody response = Inr body"
    and "validateDirectoryStructure body = Invalid msg"
  shows "fetchSignaturesDirectory f t w u ct =
     (\<lparr>success = False, directory = None,
       error = Some (''Invalid directory structure: '' @ msg),
       url = u, timestamp = t\<rparr>, w\<lparr>fetchCalls := fetchCalls w @ [u]\<rparr>)"
  using assms by (simp add: fetchSignaturesDirectory_def Let_def)

lemma fetch_stored:
  assumes "freshEntry (directoryCache w) u t (cacheTimeoutOrDefault ct) = None"
    and "f u = Inr response" and "ok response" and "jsonBody response = Inr body"
    and "validateDirectoryStructure body = Valid"
  shows "fetchSignaturesDirectory f t w u ct =
     (\<lparr>success = True, directory = Some body, error = None, url = u, timestamp = t\<rparr>,
      w\<lparr>fetchCalls := fetchCalls w @ [u],
        directoryCache := AList.update u \<lparr>data = body, timestamp = t\<rparr> (directoryCache w)\<rparr>)"
  using assms by (simp add: fetchSignaturesDirectory_def Let_def)

lemma fetch_cases:
  obtains
    (hit) cached where "freshEntry (directoryCache w) u t (cacheTimeoutOrDefault ct) = Some cached"
  | (rejected) msg where "freshEntry (directoryCache w) u t (cacheTimeoutOrDefault ct) = None"
      "f u = Inl msg"
  | (not_ok) response where "freshEntry (directoryCache w) u t (cacheTimeoutOrDefault ct) = None"
      "f u = Inr response" "\<not> ok response"
  | (bad_json) response msg where "freshEntry (directoryCache w) u t (cacheTimeoutOrDefault ct) = None"
      "f u = Inr response" "ok response" "jsonBody response = Inl msg"
  | (invalid_structure) response body msg where
      "freshEntry (directoryCache w) u t (cacheTimeoutOrDefault ct) = None"
      "f u = Inr response" "ok response" "jsonBody response = Inr body"
      "validateDirectoryStructure body = Invalid msg"
  | (stored) response body where
      "freshEntry (directoryCache w) u t (cacheTimeoutOrDefault ct) = None"
      "f u = Inr response" "ok response" "jsonBody response = Inr body"
      "validateDirectoryStructure body = Valid"
proof (cases "freshEntry (directoryCache w) u t (cacheTimeoutOrDefault ct)")
  case (Some cached)
  then show ?thesis by (rule hit)
next
  case None
  show ?thesis
  proof (cases "f u")
    case (Inl msg)
    with None show ?thesis by (rule rejected)
  next
    case (Inr response)
    show ?thesis
    proof (cases "ok response")
      case False
      with None Inr show ?thesis by (rule not_ok)
    next
      case True
      show ?thesis
      proof (cases "jsonBody response")
        case (Inl msg)
        with None Inr True show ?thesis by (rule bad_json)
      next
        case body: (Inr body)
        show ?thesis
        proof (cases "validateDirectoryStructure body")
          case Valid
          with None Inr True body show ?thesis by (rule stored)
        next
          case (Invalid msg)
          with None Inr True body show ?thesis by (rule invalid_structure)
        qed
      qed
    qed
  qed
qed

section \<open>The paths through the verifier\<close>

lemma validate_no_headers:
  assumes "extractSignatureComponents request = None"
  shows "validateWebBotAuth e w request config =
     (\<lparr>isValid = False, error = Some ''No HTTP Message Signature headers found'',
       details = \<lparr>signatureFound = False, directoryFetched = False,
                   keyMatched = False, signatureValid = False\<rparr>, metadata = None\<rparr>, w)"
  using assms by (simp add: validateWebBotAuth_def)

lemma validate_directory_failed:
  assumes "extractSignatureComponents request = Some sc"
    and "fetchSignaturesDirectory (fetch e) (now e) w (directoryUrl config) (cacheTimeout config) = (dr, w1)"
    and "\<not> success dr \<or> \<not> truthy_opt (directory dr)"
  shows "validateWebBotAuth e w request config =
     (\<lparr>isValid = False,
       error = Some (''Failed to fetch signatures directory: '' @ template_str (DirectoryResult.error dr)),
       details = \<lparr>signatureFound = True, directoryFetched = False,
                   keyMatched = False, signatureValid = False\<rparr>, metadata = None\<rparr>, w1)"
  using assms by (auto simp add: validateWebBotAuth_def Let_def)

lemma validate_lookup_throws:
  assumes "extractSignatureComponents request = Some sc"
    and "fetchSignaturesDirectory (fetch e) (now e) w (directoryUrl config) (cacheTimeout config) = (dr, w1)"
    and "success dr" and "directory dr = Some dir" and "truthy dir"
    and "findKeyById dir (orEmpty (keyId sc)) = Inl msg"
  shows "validateWebBotAuth e w request config =
     (\<lparr>isValid = False, error = Some (''Validation error: '' @ msg),
       details = \<lparr>signatureFound = True, directoryFetched = True,
                   keyMatched = False, signatureValid = False\<rparr>, metadata = None\<rparr>, w1)"
  using assms by (simp add: validateWebBotAuth_def Let_def)

lemma validate_unknown_key:
  assumes "extractSignatureComponents request = Some sc"
    and "fetchSignaturesDirectory (fetch e) (now e) w (directoryUrl config) (cacheTimeout config) = (dr, w1)"
    and "success dr" and "directory dr = Some dir" and "truthy dir"
    and "findKeyById dir (orEmpty (keyId sc)) = Inr None"
  shows "validateWebBotAuth e w request config =
     (\<lparr>isValid = False,
       error = Some (''No matching key found for kid: '' @ template_str (keyId sc)),
       details = \<lparr>signatureFound = True, directoryFetched = True,
                   keyMatched = False, signatureValid = False\<rparr>, metadata = None\<rparr>, w1)"
  using assms by (simp add: validateWebBotAuth_def Let_def)

lemma validate_signature_invalid:
  assumes "extractSignatureComponents request = Some sc"
    and "fetchSignaturesDirectory (fetch e) (now e) w (directoryUrl config) (cacheTimeout config) = (dr, w1)"
    and "success dr" and "directory dr = Some dir" and "truthy dir"
    and "findKeyById dir (orEmpty (keyId sc)) = Inr (Some key)"
    and "verifySignatureWithWebBotAuth e w1 request key dir = (False, w2)"
  shows "validateWebBotAuth e w request config =
     (\<lparr>isValid = False, error = Some ''Signature verification failed'',
       details = \<lparr>signatureFound = True, directoryFetched = True,
                   keyMatched = True, signatureValid = False\<rparr>, metadata = None\<rparr>, w2)"
  using assms by (simp add: validateWebBotAuth_def Let_def)

lemma validate_purpose_mismatch:
  assumes "extractSignatureComponents request = Some sc"
    and "fetchSignaturesDirectory (fetch e) (now e) w (directoryUrl config) (cacheTimeout config) = (dr, w1)"
    and "success dr" and "directory dr = Some dir" and "truthy dir"
    and "findKeyById dir (orEmpty (keyId sc)) = Inr (Some key)"
    and "verifySignatureWithWebBotAuth e w1 request key dir = (True, w2)"
    and "purposeMismatch config dir"
  shows "validateWebBotAuth e w request config =
     (\<lparr>isValid = False,
       error = Some (''Purpose mismatch: expected '' @ dq
                     @ template_str (ValidationConfig.purpose config) @ dq
                     @ '', got '' @ dq @ template_json (get_prop dir ''purpose'') @ dq),
       details = \<lparr>signatureFound = True, directoryFetched = True,
                   keyMatched = True, signatureValid = True\<rparr>, metadata = None\<rparr>, w2)"
  using assms by (simp add: validateWebBotAuth_def Let_def purposeMismatch_def)

lemma validate_success:
  assumes "extractSignatureComponents request = Some sc"
    and "fetchSignaturesDirectory (fetch e) (now e) w (directoryUrl config) (cacheTimeout config) = (dr, w1)"
    and "success dr" and "directory dr = Some dir" and "truthy dir"
    and "findKeyById dir (orEmpty (keyId sc)) = Inr (Some key)"
    and "verifySignatureWithWebBotAuth e w1 request key dir = (True, w2)"
    and "\<not> purposeMismatch config dir"
  shows "validateWebBotAuth e w request config =
     (\<lparr>isValid = True, error = None,
       details = \<lparr>signatureFound = True, directoryFetched = True,
                   keyMatched = True, signatureValid = True\<rparr>,
       metadata = Some \<lparr>kid = keyId sc, purpose = get_prop dir ''purpose'',
                        timestamp = Some (isoNow e)\<rparr>\<rparr>, w2)"
  using assms by (simp add: validateWebBotAuth_def Let_def purposeMismatch_def)

lemma validate_cases:
  fixes e :: "'v env"
  obtains
    (no_headers) "extractSignatureComponents request = None"
  | (directory_failed) sc dr w1 where
      "extractSignatureComponents request = Some sc"
      "fetchSignaturesDirectory (fetch e) (now e) w (directoryUrl config) (cacheTimeout config) = (dr, w1)"
      "\<not> success dr \<or> \<not> truthy_opt (directory dr)"
  | (lookup_throws) sc dr w1 dir msg where
      "extractSignatureComponents request = Some sc"
      "fetchSignaturesDirectory (fetch e) (now e) w (directoryUrl config) (cacheTimeout config) = (dr, w1)"
      "success dr" "directory dr = Some dir" "truthy dir"
      "findKeyById dir (orEmpty (keyId sc)) = Inl msg"
  | (unknown_key) sc dr w1 dir where
      "extractSignatureComponents request = Some sc"
      "fetchSignaturesDirectory (fetch e) (now e) w (directoryUrl config) (cacheTimeout config) = (dr, w1)"
      "success dr" "directory dr = Some dir" "truthy dir"
      "findKeyById dir (orEmpty (keyId sc)) = Inr None"
  | (signature_invalid) sc dr w1 dir key w2 where
      "extractSignatureComponents request = Some sc"
      "fetchSignaturesDirectory (fetch e) (now e) w (directoryUrl config) (cacheTimeout config) = (dr, w1)"
      "success dr" "directory dr = Some dir" "truthy dir"
      "findKeyById dir (orEmpty (keyId sc)) = Inr (Some key)"
      "verifySignatureWithWebBotAuth e w1 request key dir = (False, w2)"
  | (purpose_mismatch) sc dr w1 dir key w2 where
      "extractSignatureComponents request = Some sc"
      "fetchSignaturesDirectory (fetch e) (now e) w (directoryUrl config) (cacheTimeout config) = (dr, w1)"
      "success dr" "directory dr = Some dir" "truthy dir"
      "findKeyById dir (orEmpty (keyId sc)) = Inr (Some key)"
      "verifySignatureWithWebBotAuth e w1 request key dir = (True, w2)"
      "purposeMismatch config dir"
  | (valid) sc dr w1 dir key w2 where
      "extractSignatureComponents request = Some sc"
      "fetchSignaturesDirectory (fetch e) (now e) w (directoryUrl config) (cacheTimeout config) = (dr, w1)"
      "success dr" "directory dr = Some dir" "truthy dir"
      "findKeyById dir (orEmpty (keyId sc)) = Inr (Some key)"
      "verifySignatureWithWebBotAuth e w1 request key dir = (True, w2)"
      "\<not> purposeMismatch config dir"
proof (cases "extractSignatureComponents request")
  case None
  then show ?thesis by (rule no_headers)
next
  case (Some sc)
  obtain dr w1 where f:
    "fetchSignaturesDirectory (fetch e) (now e) w (directoryUrl config) (cacheTimeout config) = (dr, w1)"
    by (cases "fetchSignaturesDirectory (fetch e) (now e) w (directoryUrl config) (cacheTimeout config)")
  show ?thesis
  proof (cases "\<not> success dr \<or> \<not> truthy_opt (directory dr)")
    case True
    with Some f show ?thesis by (rule directory_failed)
  next
    case False
    then obtain dir where d: "success dr" "directory dr = Some dir" "truthy dir"
      by (cases "directory dr") auto
    show ?thesis
    proof (cases "findKeyById dir (orEmpty (keyId sc))")
      case (Inl msg)
      with Some f d show ?thesis by (rule lookup_throws)
    next
      case (Inr found)
      show ?thesis
      proof (cases found)
        case None
        with Inr have "findKeyById dir (orEmpty (keyId sc)) = Inr None" by simp
        with Some f d show ?thesis by (rule unknown_key)
      next
        case (Some key)
        with Inr have k: "findKeyById dir (orEmpty (keyId sc)) = Inr (Some key)" by simp
        obtain ok2 w2 where v: "verifySignatureWithWebBotAuth e w1 request key dir = (ok2, w2)"
          by (cases "verifySignatureWithWebBotAuth e w1 request key dir")
        note sc = \<open>extractSignatureComponents request = Some sc\<close>
        show ?thesis
        proof (cases ok2)
          case False
          with v have "verifySignatureWithWebBotAuth e w1 request key dir = (False, w2)" by simp
          with sc f d k show ?thesis by (rule signature_invalid)
        next
          case True
          with v have v': "verifySignatureWithWebBotAuth e w1 request key dir = (True, w2)" by simp
          show ?thesis
          proof (cases "purposeMismatch config dir")
            case True
            with sc f d k v' show ?thesis by (rule purpose_mismatch)
          next
            case False
            with sc f d k v' show ?thesis by (rule valid)
          qed
        qed
      qed
    qed
  qed
qed

section \<open>Missing signature headers\<close>

lemma extract_none_without_header:
  assumes "headers_get request ''signature'' = None \<or> headers_get request ''signature-input'' = None"
  shows "extractSignatureComponents request = None"
  using assms by (auto simp add: extractSignatureComponents_def split: option.splits)

text \<open>
  Claim C6. A request that lacks the \<^verbatim>\<open>signature\<close> header or the \<^verbatim>\<open>signature-input\<close>
  header (or both) is refused with the message for missing signature headers and with
  \<^verbatim>\<open>details.signatureFound = false\<close>; no later milestone is reached and no metadata is
  attached. The state is returned as it was: the directory is not resolved, so nothing
  is fetched and the cache is not touched.
\<close>

theorem missing_signature_headers:
  assumes "headers_get request ''signature'' = None \<or> headers_get request ''signature-input'' = None"
  shows "validateWebBotAuth e w request config =
     (\<lparr>isValid = False, error = Some ''No HTTP Message Signature headers found'',
       details = \<lparr>signatureFound = False, directoryFetched = False,
                   keyMatched = False, signatureValid = False\<rparr>,
       metadata = None\<rparr>, w)"
proof -
  from assms have "extractSignatureComponents request = None"
    by (rule extract_none_without_header)
  then show ?thesis by (rule validate_no_headers)
qed

theorem missing_signature_headers_witness:
  "(headers_get unsignedRequest ''signature'' = None \<or>
    headers_get unsignedRequest ''signature-input'' = None) \<and>
   validateWebBotAuth (productionEnv (fetchOk testDirectory) 0) initialWorld unsignedRequest testConfig =
     (\<lparr>isValid = False, error = Some ''No HTTP Message Signature headers found'',
       details = \<lparr>signatureFound = False, directoryFetched = False,
                   keyMatched = False, signatureValid = False\<rparr>,
       metadata = None\<rparr>, initialWorld)"
proof -
  have h: "headers_get unsignedRequest ''signature'' = None \<or>
           headers_get unsignedRequest ''signature-input'' = None"
    by (simp add: headers_get_def unsignedRequest_def)
  from h missing_signature_headers [OF h] show ?thesis by simp
qed

section \<open>Milestones\<close>

text \<open>
  Claim C9. In every result of \<^verbatim>\<open>validateWebBotAuth\<close> the milestones are monotone:
  a valid signature implies a matched key, a matched key implies a fetched directory, and
  a fetched directory implies that the signature headers were found. This covers every
  return of the function, the one of the \<^verbatim>\<open>catch\<close> block included.
\<close>

theorem details_monotone:
  fixes e :: "'v env"
  shows "(signatureValid (details (fst (validateWebBotAuth e w request config)))
            \<longrightarrow> keyMatched (details (fst (validateWebBotAuth e w request config)))) \<and>
         (keyMatched (details (fst (validateWebBotAuth e w request config)))
            \<longrightarrow> directoryFetched (details (fst (validateWebBotAuth e w request config)))) \<and>
         (directoryFetched (details (fst (validateWebBotAuth e w request config)))
            \<longrightarrow> signatureFound (details (fst (validateWebBotAuth e w request config))))"
proof (cases rule: validate_cases [where e = e and w = w and request = request and config = config])
  case no_headers
  then show ?thesis by (simp add: validate_no_headers)
next
  case (directory_failed sc dr w1)
  then show ?thesis by (simp add: validate_directory_failed)
next
  case (lookup_throws sc dr w1 dir msg)
  then show ?thesis by (simp add: validate_lookup_throws)
next
  case (unknown_key sc dr w1 dir)
  then show ?thesis by (simp add: validate_unknown_key)
next
  case (signature_invalid sc dr w1 dir key w2)
  then show ?thesis by (simp add: validate_signature_invalid)
next
  case (purpose_mismatch sc dr w1 dir key w2)
  then show ?thesis by (simp add: validate_purpose_mismatch)
next
  case (valid sc dr w1 dir key w2)
  then show ?thesis by (simp add: validate_success)
qed

lemma example_valid_result:
  "fst (validateWebBotAuth (productionEnv (fetchOk testDirectory) 0) initialWorld signedRequest testConfig) =
     \<lparr>isValid = True, error = None,
       details = \<lparr>signatureFound = True, directoryFetched = True,
                   keyMatched = True, signatureValid = True\<rparr>,
       metadata = Some \<lparr>kid = Some ''test-key'', purpose = Some (JStr ''test''),
                        timestamp = Some ''2026-11-02T00:00:00.000Z''\<rparr>\<rparr>"
  by code_simp

theorem details_monotone_witness:
  "signatureValid (details (fst (validateWebBotAuth (productionEnv (fetchOk testDirectory) 0)
      initialWorld signedRequest testConfig))) \<and>
   keyMatched (details (fst (validateWebBotAuth (productionEnv (fetchOk testDirectory) 0)
      initialWorld signedRequest testConfig))) \<and>
   directoryFetched (details (fst (validateWebBotAuth (productionEnv (fetchOk testDirectory) 0)
      initialWorld signedRequest testConfig))) \<and>
   signatureFound (details (fst (validateWebBotAuth (productionEnv (fetchOk testDirectory) 0)
      initialWorld signedRequest testConfig)))"
proof -
  have v: "signatureValid (details (fst (validateWebBotAuth (productionEnv (fetchOk testDirectory) 0)
      initialWorld signedRequest testConfig)))"
    by (simp add: example_valid_result)
  from v details_monotone [of "productionEnv (fetchOk testDirectory) 0" initialWorld signedRequest testConfig]
  show ?thesis by blast
qed

section \<open>Evaluation of the concrete inputs\<close>

lemma productionEnv_sel:
  "now (productionEnv f t) = t" "fetch (productionEnv f t) = f"
  "NODE_ENV (productionEnv f t) = Some ''production''"
  "verifierFromJWK (productionEnv f t) = acceptingVerifierFromJWK"
  "verify (productionEnv f t) = acceptingVerify"
  by (simp_all add: productionEnv_def)

lemma testEnv_sel:
  "now (testEnv f t) = t" "fetch (testEnv f t) = f"
  "NODE_ENV (testEnv f t) = Some ''test''"
  "verifierFromJWK (testEnv f t) = acceptingVerifierFromJWK"
  "verify (testEnv f t) = acceptingVerify"
  by (simp_all add: testEnv_def productionEnv_def)

lemma testConfig_sel:
  "directoryUrl testConfig = testUrl" "ValidationConfig.purpose testConfig = Some ''test''"
  "cacheTimeout testConfig = Some 1000"
  by (simp_all add: testConfig_def)

lemma signedRequest_signature_input:
  "headers_get signedRequest ''signature-input'' = Some testSignatureInput"
  by (simp add: headers_get_def signedRequest_def)

lemma signedRequest_keyid:
  "matchFirst (quotedAt ''keyid'') testSignatureInput = Some ''test-key''"
  by code_simp

lemma signedRequest_components:
  "extractSignatureComponents signedRequest \<noteq> None"
  by code_simp

section \<open>Metadata of a successful verification\<close>

lemma extract_Some_keyId:
  assumes "extractSignatureComponents request = Some sc"
  shows "\<exists>sigInput. headers_get request ''signature-input'' = Some sigInput \<and>
           keyId sc = matchFirst (quotedAt ''keyid'') sigInput"
  using assms
  by (auto simp add: extractSignatureComponents_def split: option.splits if_splits)

text \<open>
  Claim C8. When verification succeeds (\<^verbatim>\<open>isValid = true\<close>), the request carries a
  \<^verbatim>\<open>signature-input\<close> header, the resolver has returned a directory, and the result's
  metadata holds as \<^verbatim>\<open>kid\<close> the \<^verbatim>\<open>keyid\<close> parsed from that header and as \<^verbatim>\<open>purpose\<close>
  the \<^verbatim>\<open>purpose\<close> property of that directory.
\<close>

theorem success_metadata:
  fixes e :: "'v env"
  assumes "validateWebBotAuth e w request config = (r, w')"
    and "isValid r"
  shows "\<exists>sigInput dir m.
           headers_get request ''signature-input'' = Some sigInput \<and>
           directory (fst (fetchSignaturesDirectory (fetch e) (now e) w
                             (directoryUrl config) (cacheTimeout config))) = Some dir \<and>
           metadata r = Some m \<and>
           kid m = matchFirst (quotedAt ''keyid'') sigInput \<and>
           Metadata.purpose m = get_prop dir ''purpose''"
proof (cases rule: validate_cases [where e = e and w = w and request = request and config = config])
  case no_headers
  from validate_no_headers [OF this, of e w config] assms show ?thesis by auto
next
  case (directory_failed sc dr w1)
  from validate_directory_failed [OF this] assms show ?thesis by auto
next
  case (lookup_throws sc dr w1 dir msg)
  from validate_lookup_throws [OF this] assms show ?thesis by auto
next
  case (unknown_key sc dr w1 dir)
  from validate_unknown_key [OF this] assms show ?thesis by auto
next
  case (signature_invalid sc dr w1 dir key w2)
  from validate_signature_invalid [OF this] assms show ?thesis by auto
next
  case (purpose_mismatch sc dr w1 dir key w2)
  from validate_purpose_mismatch [OF this] assms show ?thesis by auto
next
  case (valid sc dr w1 dir key w2)
  from validate_success [OF this] assms
  have m: "metadata r = Some \<lparr>kid = keyId sc, purpose = get_prop dir ''purpose'',
                               timestamp = Some (isoNow e)\<rparr>"
    by auto
  from extract_Some_keyId [OF valid(1)] obtain sigInput where
    s: "headers_get request ''signature-input'' = Some sigInput"
       "keyId sc = matchFirst (quotedAt ''keyid'') sigInput"
    by blast
  from valid(2,4) have
    d: "directory (fst (fetchSignaturesDirectory (fetch e) (now e) w
                          (directoryUrl config) (cacheTimeout config))) = Some dir"
    by simp
  from m s d show ?thesis by simp
qed

lemma example_valid_run:
  "validateWebBotAuth (productionEnv (fetchOk testDirectory) 0) initialWorld signedRequest testConfig =
     (\<lparr>isValid = True, error = None,
       details = \<lparr>signatureFound = True, directoryFetched = True,
                   keyMatched = True, signatureValid = True\<rparr>,
       metadata = Some \<lparr>kid = Some ''test-key'', purpose = Some (JStr ''test''),
                        timestamp = Some ''2026-11-02T00:00:00.000Z''\<rparr>\<rparr>,
      \<lparr>directoryCache = [(testUrl, \<lparr>data = testDirectory, timestamp = 0\<rparr>)],
        fetchCalls = [testUrl], console = []\<rparr>)"
  by code_simp

theorem success_metadata_witness:
  "isValid (fst (validateWebBotAuth (productionEnv (fetchOk testDirectory) 0)
                   initialWorld signedRequest testConfig)) \<and>
   (\<exists>m. metadata (fst (validateWebBotAuth (productionEnv (fetchOk testDirectory) 0)
                         initialWorld signedRequest testConfig)) = Some m \<and>
        kid m = Some ''test-key'' \<and>
        Metadata.purpose m = get_prop testDirectory ''purpose'')"
proof -
  let ?r = "fst (validateWebBotAuth (productionEnv (fetchOk testDirectory) 0)
                   initialWorld signedRequest testConfig)"
  let ?w = "snd (validateWebBotAuth (productionEnv (fetchOk testDirectory) 0)
                   initialWorld signedRequest testConfig)"
  have run: "validateWebBotAuth (productionEnv (fetchOk testDirectory) 0)
               initialWorld signedRequest testConfig = (?r, ?w)"
    by simp
  have v: "isValid ?r" by (simp add: example_valid_run)
  have d: "directory (fst (fetchSignaturesDirectory (fetchOk testDirectory) 0 initialWorld
                             testUrl (Some 1000))) = Some testDirectory"
    by code_simp
  from success_metadata [OF run v] obtain sigInput dir m where
    "headers_get signedRequest ''signature-input'' = Some sigInput"
    "directory (fst (fetchSignaturesDirectory (fetchOk testDirectory) 0 initialWorld
                       testUrl (Some 1000))) = Some dir"
    "metadata ?r = Some m"
    "kid m = matchFirst (quotedAt ''keyid'') sigInput"
    "Metadata.purpose m = get_prop dir ''purpose''"
    by (auto simp add: productionEnv_sel testConfig_sel)
  with d have "metadata ?r = Some m \<and> kid m = Some ''test-key'' \<and>
               Metadata.purpose m = get_prop testDirectory ''purpose''"
    by (simp add: signedRequest_signature_input signedRequest_keyid)
  with v show ?thesis by blast
qed

section \<open>Failures are results\<close>

lemma fetch_result_shape:
  "DirectoryResult.url (fst (fetchSignaturesDirectory f t w u ct)) = u \<and>
   (success (fst (fetchSignaturesDirectory f t w u ct)) \<longrightarrow>
      directory (fst (fetchSignaturesDirectory f t w u ct)) \<noteq> None \<and>
      DirectoryResult.error (fst (fetchSignaturesDirectory f t w u ct)) = None) \<and>
   (\<not> success (fst (fetchSignaturesDirectory f t w u ct)) \<longrightarrow>
      directory (fst (fetchSignaturesDirectory f t w u ct)) = None \<and>
      (\<exists>msg. DirectoryResult.error (fst (fetchSignaturesDirectory f t w u ct)) = Some msg))"
proof (cases rule: fetch_cases [where f = f and t = t and w = w and u = u and ct = ct])
  case (hit cached)
  then show ?thesis by (simp add: fetch_hit)
next
  case (rejected msg)
  then show ?thesis by (simp add: fetch_rejected)
next
  case (not_ok response)
  then show ?thesis by (simp add: fetch_not_ok)
next
  case (bad_json response msg)
  then show ?thesis by (simp add: fetch_bad_json)
next
  case (invalid_structure response body msg)
  then show ?thesis by (simp add: fetch_invalid_structure)
next
  case (stored response body)
  then show ?thesis by (simp add: fetch_stored)
qed

lemma validate_result_shape:
  fixes e :: "'v env"
  shows "(isValid (fst (validateWebBotAuth e w request config)) \<longrightarrow>
            ValidationResult.error (fst (validateWebBotAuth e w request config)) = None \<and>
            metadata (fst (validateWebBotAuth e w request config)) \<noteq> None) \<and>
         (\<not> isValid (fst (validateWebBotAuth e w request config)) \<longrightarrow>
            (\<exists>msg. ValidationResult.error (fst (validateWebBotAuth e w request config)) = Some msg) \<and>
            metadata (fst (validateWebBotAuth e w request config)) = None)"
proof (cases rule: validate_cases [where e = e and w = w and request = request and config = config])
  case no_headers
  then show ?thesis by (simp add: validate_no_headers)
next
  case (directory_failed sc dr w1)
  then show ?thesis by (simp add: validate_directory_failed)
next
  case (lookup_throws sc dr w1 dir msg)
  then show ?thesis by (simp add: validate_lookup_throws)
next
  case (unknown_key sc dr w1 dir)
  then show ?thesis by (simp add: validate_unknown_key)
next
  case (signature_invalid sc dr w1 dir key w2)
  then show ?thesis by (simp add: validate_signature_invalid)
next
  case (purpose_mismatch sc dr w1 dir key w2)
  then show ?thesis by (simp add: validate_purpose_mismatch)
next
  case (valid sc dr w1 dir key w2)
  then show ?thesis by (simp add: validate_success)
qed

lemma validate_carries_resolver_message:
  fixes e :: "'v env"
  assumes "extractSignatureComponents request \<noteq> None"
    and "\<not> success (fst (fetchSignaturesDirectory (fetch e) (now e) w
                            (directoryUrl config) (cacheTimeout config)))"
  shows "\<exists>msg. DirectoryResult.error (fst (fetchSignaturesDirectory (fetch e) (now e) w
                                             (directoryUrl config) (cacheTimeout config))) = Some msg \<and>
               validateWebBotAuth e w request config =
                 (\<lparr>isValid = False,
                   error = Some (''Failed to fetch signatures directory: '' @ msg),
                   details = \<lparr>signatureFound = True, directoryFetched = False,
                               keyMatched = False, signatureValid = False\<rparr>,
                   metadata = None\<rparr>,
                  snd (fetchSignaturesDirectory (fetch e) (now e) w
                         (directoryUrl config) (cacheTimeout config)))"
proof -
  let ?res = "fetchSignaturesDirectory (fetch e) (now e) w (directoryUrl config) (cacheTimeout config)"
  from assms(1) obtain sc where sc: "extractSignatureComponents request = Some sc" by auto
  have res: "?res = (fst ?res, snd ?res)" by simp
  from assms(2) fetch_result_shape [of "fetch e" "now e" w "directoryUrl config" "cacheTimeout config"]
  obtain msg where msg: "DirectoryResult.error (fst ?res) = Some msg" by blast
  from assms(2) have "\<not> success (fst ?res) \<or> \<not> truthy_opt (directory (fst ?res))" by simp
  from validate_directory_failed [OF sc res this] msg show ?thesis by simp
qed

text \<open>
  Claim C4. Neither function lets an exception out; each failure is a value.

  \<^item> \<^verbatim>\<open>fetchSignaturesDirectory\<close> always returns a \<^verbatim>\<open>DirectoryResult\<close> for the URL it
    was given, which either succeeds with a directory and no error, or has
    \<^verbatim>\<open>success = false\<close>, no directory and an error message. On a cache miss each
    failure mode has its message: a rejected \<^verbatim>\<open>fetch\<close> and a body that does not parse
    give the \<^verbatim>\<open>catch\<close> block's message with the text of the exception, a response
    that is not ok gives the status and status text, and a body that fails structure
    validation gives the validator's message.
  \<^item> \<^verbatim>\<open>validateWebBotAuth\<close> always returns a \<^verbatim>\<open>ValidationResult\<close>, valid with
    metadata and no error, or invalid with an error message and no metadata. When the
    headers are present and the resolver fails, the error is the resolver's message
    behind a fixed prefix.
\<close>

theorem failures_are_results:
  fixes e :: "'v env"
  shows
    "(DirectoryResult.url (fst (fetchSignaturesDirectory f t w u ct)) = u \<and>
      (success (fst (fetchSignaturesDirectory f t w u ct)) \<longrightarrow>
         directory (fst (fetchSignaturesDirectory f t w u ct)) \<noteq> None \<and>
         DirectoryResult.error (fst (fetchSignaturesDirectory f t w u ct)) = None) \<and>
      (\<not> success (fst (fetchSignaturesDirectory f t w u ct)) \<longrightarrow>
         directory (fst (fetchSignaturesDirectory f t w u ct)) = None \<and>
         (\<exists>msg. DirectoryResult.error (fst (fetchSignaturesDirectory f t w u ct)) = Some msg))) \<and>
     (freshEntry (directoryCache w) u t (cacheTimeoutOrDefault ct) = None \<longrightarrow>
        (\<forall>msg. f u = Inl msg \<longrightarrow>
           fst (fetchSignaturesDirectory f t w u ct) =
             \<lparr>success = False, directory = None,
               error = Some (''Error fetching directory: '' @ msg), url = u, timestamp = t\<rparr>) \<and>
        (\<forall>response. f u = Inr response \<and> \<not> ok response \<longrightarrow>
           fst (fetchSignaturesDirectory f t w u ct) =
             \<lparr>success = False, directory = None,
               error = Some (''Failed to fetch directory: '' @ show_nat (status response)
                             @ '' '' @ statusText response),
               url = u, timestamp = t\<rparr>) \<and>
        (\<forall>response msg. f u = Inr response \<and> ok response \<and> jsonBody response = Inl msg \<longrightarrow>
           fst (fetchSignaturesDirectory f t w u ct) =
             \<lparr>success = False, directory = None,
               error = Some (''Error fetching directory: '' @ msg), url = u, timestamp = t\<rparr>) \<and>
        (\<forall>response body msg.
           f u = Inr response \<and> ok response \<and> jsonBody response = Inr body \<and>
           validateDirectoryStructure body = Invalid msg \<longrightarrow>
           fst (fetchSignaturesDirectory f t w u ct) =
             \<lparr>success = False, directory = None,
               error = Some (''Invalid directory structure: '' @ msg), url = u, timestamp = t\<rparr>)) \<and>
     ((isValid (fst (validateWebBotAuth e w request config)) \<longrightarrow>
         ValidationResult.error (fst (validateWebBotAuth e w request config)) = None \<and>
         metadata (fst (validateWebBotAuth e w request config)) \<noteq> None) \<and>
      (\<not> isValid (fst (validateWebBotAuth e w request config)) \<longrightarrow>
         (\<exists>msg. ValidationResult.error (fst (validateWebBotAuth e w request config)) = Some msg) \<and>
         metadata (fst (validateWebBotAuth e w request config)) = None)) \<and>
     (extractSignatureComponents request \<noteq> None \<and>
      \<not> success (fst (fetchSignaturesDirectory (fetch e) (now e) w
                         (directoryUrl config) (cacheTimeout config))) \<longrightarrow>
        (\<exists>msg. DirectoryResult.error (fst (fetchSignaturesDirectory (fetch e) (now e) w
                                            (directoryUrl config) (cacheTimeout config))) = Some msg \<and>
              validateWebBotAuth e w request config =
                (\<lparr>isValid = False,
                  error = Some (''Failed to fetch signatures directory: '' @ msg),
                  details = \<lparr>signatureFound = True, directoryFetched = False,
                              keyMatched = False, signatureValid = False\<rparr>,
                  metadata = None\<rparr>,
                 snd (fetchSignaturesDirectory (fetch e) (now e) w
                        (directoryUrl config) (cacheTimeout config)))))"
proof (intro conjI impI allI)
  show "DirectoryResult.url (fst (fetchSignaturesDirectory f t w u ct)) = u"
    using fetch_result_shape [of f t w u ct] by blast
next
  assume "success (fst (fetchSignaturesDirectory f t w u ct))"
  then show "directory (fst (fetchSignaturesDirectory f t w u ct)) \<noteq> None"
    using fetch_result_shape [of f t w u ct] by blast
next
  assume "success (fst (fetchSignaturesDirectory f t w u ct))"
  then show "DirectoryResult.error (fst (fetchSignaturesDirectory f t w u ct)) = None"
    using fetch_result_shape [of f t w u ct] by blast
next
  assume "\<not> success (fst (fetchSignaturesDirectory f t w u ct))"
  then show "directory (fst (fetchSignaturesDirectory f t w u ct)) = None"
    using fetch_result_shape [of f t w u ct] by blast
next
  assume "\<not> success (fst (fetchSignaturesDirectory f t w u ct))"
  then show "\<exists>msg. DirectoryResult.error (fst (fetchSignaturesDirectory f t w u ct)) = Some msg"
    using fetch_result_shape [of f t w u ct] by blast
next
  fix msg
  assume "freshEntry (directoryCache w) u t (cacheTimeoutOrDefault ct) = None" "f u = Inl msg"
  then show "fst (fetchSignaturesDirectory f t w u ct) =
             \<lparr>success = False, directory = None,
               error = Some (''Error fetching directory: '' @ msg), url = u, timestamp = t\<rparr>"
    by (simp add: fetch_rejected)
next
  fix response
  assume "freshEntry (directoryCache w) u t (cacheTimeoutOrDefault ct) = None"
    "f u = Inr response \<and> \<not> ok response"
  then show "fst (fetchSignaturesDirectory f t w u ct) =
             \<lparr>success = False, directory = None,
               error = Some (''Failed to fetch directory: '' @ show_nat (status response)
                             @ '' '' @ statusText response),
               url = u, timestamp = t\<rparr>"
    by (simp add: fetch_not_ok)
next
  fix response msg
  assume "freshEntry (directoryCache w) u t (cacheTimeoutOrDefault ct) = None"
    "f u = Inr response \<and> ok response \<and> jsonBody response = Inl msg"
  then show "fst (fetchSignaturesDirectory f t w u ct) =
             \<lparr>success = False, directory = None,
               error = Some (''Error fetching directory: '' @ msg), url = u, timestamp = t\<rparr>"
    by (simp add: fetch_bad_json)
next
  fix response body msg
  assume "freshEntry (directoryCache w) u t (cacheTimeoutOrDefault ct) = None"
    "f u = Inr response \<and> ok response \<and> jsonBody response = Inr body \<and>
     validateDirectoryStructure body = Invalid msg"
  then show "fst (fetchSignaturesDirectory f t w u ct) =
             \<lparr>success = False, directory = None,
               error = Some (''Invalid directory structure: '' @ msg), url = u, timestamp = t\<rparr>"
    by (simp add: fetch_invalid_structure)
next
  assume "isValid (fst (validateWebBotAuth e w request config))"
  then show "ValidationResult.error (fst (validateWebBotAuth e w request config)) = None"
    using validate_result_shape [of e w request config] by blast
next
  assume "isValid (fst (validateWebBotAuth e w request config))"
  then show "metadata (fst (validateWebBotAuth e w request config)) \<noteq> None"
    using validate_result_shape [of e w request config] by blast
next
  assume "\<not> isValid (fst (validateWebBotAuth e w request config))"
  then show "\<exists>msg. ValidationResult.error (fst (validateWebBotAuth e w request config)) = Some msg"
    using validate_result_shape [of e w request config] by blast
next
  assume "\<not> isValid (fst (validateWebBotAuth e w request config))"
  then show "metadata (fst (validateWebBotAuth e w request config)) = None"
    using validate_result_shape [of e w request config] by blast
next
  assume "extractSignatureComponents request \<noteq> None \<and>
      \<not> success (fst (fetchSignaturesDirectory (fetch e) (now e) w
                         (directoryUrl config) (cacheTimeout config)))"
  then show "\<exists>msg. DirectoryResult.error (fst (fetchSignaturesDirectory (fetch e) (now e) w
                                            (directoryUrl config) (cacheTimeout config))) = Some msg \<and>
              validateWebBotAuth e w request config =
                (\<lparr>isValid = False,
                  error = Some (''Failed to fetch signatures directory: '' @ msg),
                  details = \<lparr>signatureFound = True, directoryFetched = False,
                              keyMatched = False, signatureValid = False\<rparr>,
                  metadata = None\<rparr>,
                 snd (fetchSignaturesDirectory (fetch e) (now e) w
                        (directoryUrl config) (cacheTimeout config)))"
    using validate_carries_resolver_message [of request e w config] by blast
qed

theorem failures_are_results_witness:
  "freshEntry (directoryCache initialWorld) testUrl 0 (cacheTimeoutOrDefault (Some 1000)) = None \<and>
   fetchNotFound testUrl =
     Inr \<lparr>ok = False, status = 404, statusText = ''Not Found'',
           jsonBody = Inl ''Unexpected end of JSON input''\<rparr> \<and>
   extractSignatureComponents signedRequest \<noteq> None \<and>
   fst (fetchSignaturesDirectory fetchNotFound 0 initialWorld testUrl (Some 1000)) =
     \<lparr>success = False, directory = None,
       error = Some ''Failed to fetch directory: 404 Not Found'', url = testUrl, timestamp = 0\<rparr> \<and>
   fst (validateWebBotAuth (productionEnv fetchNotFound 0) initialWorld signedRequest testConfig) =
     \<lparr>isValid = False,
       error = Some ''Failed to fetch signatures directory: Failed to fetch directory: 404 Not Found'',
       details = \<lparr>signatureFound = True, directoryFetched = False,
                   keyMatched = False, signatureValid = False\<rparr>,
       metadata = None\<rparr>"
proof -
  let ?response = "\<lparr>ok = False, status = 404, statusText = ''Not Found'',
                     jsonBody = Inl ''Unexpected end of JSON input''\<rparr>"
  let ?res = "fetchSignaturesDirectory fetchNotFound 0 initialWorld testUrl (Some 1000)"
  note T = failures_are_results [where f = fetchNotFound and t = 0 and w = initialWorld
      and u = testUrl and ct = "Some 1000" and e = "productionEnv fetchNotFound 0"
      and request = signedRequest and config = testConfig]
  have fresh: "freshEntry (directoryCache initialWorld) testUrl 0 (cacheTimeoutOrDefault (Some 1000)) = None"
    by code_simp
  have resp: "fetchNotFound testUrl = Inr ?response" "\<not> ok ?response"
    by (simp_all add: fetchNotFound_def)
  have digits: "show_nat 404 = ''404''" by code_simp
  from T fresh resp have
    "fst ?res = \<lparr>success = False, directory = None,
                  error = Some (''Failed to fetch directory: '' @ show_nat (status ?response)
                                @ '' '' @ statusText ?response),
                  url = testUrl, timestamp = 0\<rparr>"
    by blast
  then have dr: "fst ?res = \<lparr>success = False, directory = None,
       error = Some ''Failed to fetch directory: 404 Not Found'', url = testUrl, timestamp = 0\<rparr>"
    by (simp add: digits)
  then have failed: "\<not> success (fst ?res)" by simp
  from T signedRequest_components failed obtain msg where
    "DirectoryResult.error (fst ?res) = Some msg"
    "validateWebBotAuth (productionEnv fetchNotFound 0) initialWorld signedRequest testConfig =
       (\<lparr>isValid = False, error = Some (''Failed to fetch signatures directory: '' @ msg),
         details = \<lparr>signatureFound = True, directoryFetched = False,
                     keyMatched = False, signatureValid = False\<rparr>,
         metadata = None\<rparr>, snd ?res)"
    unfolding productionEnv_sel testConfig_sel by blast
  with dr have "fst (validateWebBotAuth (productionEnv fetchNotFound 0) initialWorld signedRequest testConfig) =
     \<lparr>isValid = False,
       error = Some ''Failed to fetch signatures directory: Failed to fetch directory: 404 Not Found'',
       details = \<lparr>signatureFound = True, directoryFetched = False,
                   keyMatched = False, signatureValid = False\<rparr>,
       metadata = None\<rparr>"
    by simp
  with fresh resp(1) signedRequest_components dr show ?thesis by blast
qed

section \<open>Cache freshness\<close>

lemma freshEntry_present:
  assumes "map_of cache u = Some entry"
  shows "freshEntry cache u t win =
           (if t - cache_entry.timestamp entry < win then Some entry else None)"
  using assms by (simp add: freshEntry_def)

lemma freshEntry_absent:
  assumes "map_of cache u = None"
  shows "freshEntry cache u t win = None"
  using assms by (simp add: freshEntry_def)

lemma fetch_miss_calls:
  assumes "freshEntry (directoryCache w) u t (cacheTimeoutOrDefault ct) = None"
  shows "fetchCalls (snd (fetchSignaturesDirectory f t w u ct)) = fetchCalls w @ [u]"
proof (cases rule: fetch_cases [where f = f and t = t and w = w and u = u and ct = ct])
  case (hit cached)
  with assms show ?thesis by simp
next
  case (rejected msg)
  then show ?thesis by (simp add: fetch_rejected)
next
  case (not_ok response)
  then show ?thesis by (simp add: fetch_not_ok)
next
  case (bad_json response msg)
  then show ?thesis by (simp add: fetch_bad_json)
next
  case (invalid_structure response body msg)
  then show ?thesis by (simp add: fetch_invalid_structure)
next
  case (stored response body)
  then show ?thesis by (simp add: fetch_stored)
qed

lemma fetch_miss_fails:
  assumes "freshEntry (directoryCache w) u t (cacheTimeoutOrDefault ct) = None"
    and "fetchFails f u"
  shows "\<not> success (fst (fetchSignaturesDirectory f t w u ct)) \<and>
         directory (fst (fetchSignaturesDirectory f t w u ct)) = None \<and>
         directoryCache (snd (fetchSignaturesDirectory f t w u ct)) = directoryCache w"
proof (cases rule: fetch_cases [where f = f and t = t and w = w and u = u and ct = ct])
  case (hit cached)
  with assms show ?thesis by simp
next
  case (rejected msg)
  then show ?thesis by (simp add: fetch_rejected)
next
  case (not_ok response)
  then show ?thesis by (simp add: fetch_not_ok)
next
  case (bad_json response msg)
  then show ?thesis by (simp add: fetch_bad_json)
next
  case (invalid_structure response body msg)
  then show ?thesis by (simp add: fetch_invalid_structure)
next
  case (stored response body)
  with assms(2) show ?thesis by (simp add: fetchFails_def)
qed

lemma fetch_entry_after:
  "map_of (directoryCache (snd (fetchSignaturesDirectory f t w u ct))) u = map_of (directoryCache w) u \<or>
   (\<exists>body. map_of (directoryCache (snd (fetchSignaturesDirectory f t w u ct))) u =
             Some \<lparr>data = body, timestamp = t\<rparr>)"
proof (cases rule: fetch_cases [where f = f and t = t and w = w and u = u and ct = ct])
  case (hit cached)
  then show ?thesis by (simp add: fetch_hit)
next
  case (rejected msg)
  then show ?thesis by (simp add: fetch_rejected)
next
  case (not_ok response)
  then show ?thesis by (simp add: fetch_not_ok)
next
  case (bad_json response msg)
  then show ?thesis by (simp add: fetch_bad_json)
next
  case (invalid_structure response body msg)
  then show ?thesis by (simp add: fetch_invalid_structure)
next
  case (stored response body)
  then show ?thesis by (simp add: fetch_stored update_conv')
qed

lemma two_resolves_two_fetches:
  assumes "map_of (directoryCache w) u = None"
  shows "fetchCalls (snd (fetchSignaturesDirectory fb 150
                            (snd (fetchSignaturesDirectory fa 0 w u (Some 100))) u (Some 100))) =
         fetchCalls w @ [u, u]"
proof -
  let ?w1 = "snd (fetchSignaturesDirectory fa 0 w u (Some 100))"
  have first: "fetchCalls ?w1 = fetchCalls w @ [u]"
    by (rule fetch_miss_calls) (simp add: freshEntry_absent [OF assms])
  have "freshEntry (directoryCache ?w1) u 150 (cacheTimeoutOrDefault (Some 100)) = None"
    using fetch_entry_after [of fa 0 w u "Some 100"] assms
    by (auto simp add: freshEntry_def cacheTimeoutOrDefault_def)
  then have "fetchCalls (snd (fetchSignaturesDirectory fb 150 ?w1 u (Some 100))) = fetchCalls ?w1 @ [u]"
    by (rule fetch_miss_calls)
  with first show ?thesis by simp
qed

text \<open>
  Claim C5. Let the cache hold an entry for the URL and let \<open>win\<close> be the freshness
  window of the call (the argument, or one hour when it is absent).

  \<^item> If \<open>now - entryTimestamp < win\<close> the call returns the cached directory with the
    entry's timestamp and leaves the state as it was: nothing is fetched.
  \<^item> Otherwise exactly one fetch of the URL is made. So the fetch log is unchanged
    exactly when \<open>now - entryTimestamp < win\<close>.
  \<^item> With \<open>win = 0\<close> an entry whose timestamp is not in the future is never used.
  \<^item> If the entry is stale and the fetch fails, the result is a failure without a
    directory, and the cache still holds what it held: the stale entry is not returned.

  Without an entry for the URL every call fetches. And from a cache without an entry for
  the URL, a resolve at time 0 followed by a resolve at time 150, both with a window of
  100, makes exactly two fetches, whatever the two fetches return.
\<close>

theorem cache_freshness:
  "(\<forall>entry. map_of (directoryCache w) u = Some entry \<longrightarrow>
      (t - cache_entry.timestamp entry < cacheTimeoutOrDefault ct \<longrightarrow>
         fetchSignaturesDirectory f t w u ct =
           (\<lparr>success = True, directory = Some (data entry), error = None, url = u,
             timestamp = cache_entry.timestamp entry\<rparr>, w)) \<and>
      (\<not> t - cache_entry.timestamp entry < cacheTimeoutOrDefault ct \<longrightarrow>
         fetchCalls (snd (fetchSignaturesDirectory f t w u ct)) = fetchCalls w @ [u]) \<and>
      (fetchCalls (snd (fetchSignaturesDirectory f t w u ct)) = fetchCalls w
         \<longleftrightarrow> t - cache_entry.timestamp entry < cacheTimeoutOrDefault ct) \<and>
      (cacheTimeoutOrDefault ct = 0 \<and> cache_entry.timestamp entry \<le> t \<longrightarrow>
         fetchCalls (snd (fetchSignaturesDirectory f t w u ct)) = fetchCalls w @ [u]) \<and>
      (\<not> t - cache_entry.timestamp entry < cacheTimeoutOrDefault ct \<and> fetchFails f u \<longrightarrow>
         \<not> success (fst (fetchSignaturesDirectory f t w u ct)) \<and>
         directory (fst (fetchSignaturesDirectory f t w u ct)) = None \<and>
         directoryCache (snd (fetchSignaturesDirectory f t w u ct)) = directoryCache w)) \<and>
   (map_of (directoryCache w) u = None \<longrightarrow>
      fetchCalls (snd (fetchSignaturesDirectory f t w u ct)) = fetchCalls w @ [u]) \<and>
   (map_of (directoryCache w) u = None \<longrightarrow>
      fetchCalls (snd (fetchSignaturesDirectory fb 150
                         (snd (fetchSignaturesDirectory fa 0 w u (Some 100))) u (Some 100))) =
      fetchCalls w @ [u, u])"
proof (intro conjI allI impI)
  fix entry
  assume "map_of (directoryCache w) u = Some entry"
    "t - cache_entry.timestamp entry < cacheTimeoutOrDefault ct"
  then show "fetchSignaturesDirectory f t w u ct =
           (\<lparr>success = True, directory = Some (data entry), error = None, url = u,
             timestamp = cache_entry.timestamp entry\<rparr>, w)"
    by (simp add: fetch_hit freshEntry_present)
next
  fix entry
  assume "map_of (directoryCache w) u = Some entry"
    "\<not> t - cache_entry.timestamp entry < cacheTimeoutOrDefault ct"
  then show "fetchCalls (snd (fetchSignaturesDirectory f t w u ct)) = fetchCalls w @ [u]"
    by (simp add: fetch_miss_calls freshEntry_present)
next
  fix entry
  assume e: "map_of (directoryCache w) u = Some entry"
  show "fetchCalls (snd (fetchSignaturesDirectory f t w u ct)) = fetchCalls w
         \<longleftrightarrow> t - cache_entry.timestamp entry < cacheTimeoutOrDefault ct"
  proof (cases "t - cache_entry.timestamp entry < cacheTimeoutOrDefault ct")
    case True
    with e show ?thesis by (simp add: fetch_hit freshEntry_present)
  next
    case False
    with e show ?thesis by (simp add: fetch_miss_calls freshEntry_present)
  qed
next
  fix entry
  assume "map_of (directoryCache w) u = Some entry"
    "cacheTimeoutOrDefault ct = 0 \<and> cache_entry.timestamp entry \<le> t"
  then show "fetchCalls (snd (fetchSignaturesDirectory f t w u ct)) = fetchCalls w @ [u]"
    by (simp add: fetch_miss_calls freshEntry_present)
next
  fix entry
  assume e: "map_of (directoryCache w) u = Some entry"
    and s: "\<not> t - cache_entry.timestamp entry < cacheTimeoutOrDefault ct \<and> fetchFails f u"
  from e s have "freshEntry (directoryCache w) u t (cacheTimeoutOrDefault ct) = None"
    by (simp add: freshEntry_present)
  from fetch_miss_fails [OF this] s
  show "\<not> success (fst (fetchSignaturesDirectory f t w u ct))"
    "directory (fst (fetchSignaturesDirectory f t w u ct)) = None"
    "directoryCache (snd (fetchSignaturesDirectory f t w u ct)) = directoryCache w"
    by blast+
next
  assume "map_of (directoryCache w) u = None"
  then show "fetchCalls (snd (fetchSignaturesDirectory f t w u ct)) = fetchCalls w @ [u]"
    by (simp add: fetch_miss_calls freshEntry_absent)
next
  assume "map_of (directoryCache w) u = None"
  then show "fetchCalls (snd (fetchSignaturesDirectory fb 150
                         (snd (fetchSignaturesDirectory fa 0 w u (Some 100))) u (Some 100))) =
      fetchCalls w @ [u, u]"
    by (rule two_resolves_two_fetches)
qed

theorem cache_freshness_witness:
  "map_of (directoryCache cachedWorld) testUrl = Some \<lparr>data = testDirectory, timestamp = 0\<rparr> \<and>
   (50 - 0 < cacheTimeoutOrDefault (Some 100)) \<and>
   fetchSignaturesDirectory fetchNotFound 50 cachedWorld testUrl (Some 100) =
     (\<lparr>success = True, directory = Some testDirectory, error = None, url = testUrl,
       timestamp = 0\<rparr>, cachedWorld) \<and>
   \<not> (150 - 0 < cacheTimeoutOrDefault (Some 100)) \<and> fetchFails fetchNotFound testUrl \<and>
   fetchCalls (snd (fetchSignaturesDirectory fetchNotFound 150 cachedWorld testUrl (Some 100))) =
     [testUrl, testUrl] \<and>
   \<not> success (fst (fetchSignaturesDirectory fetchNotFound 150 cachedWorld testUrl (Some 100))) \<and>
   directory (fst (fetchSignaturesDirectory fetchNotFound 150 cachedWorld testUrl (Some 100))) = None \<and>
   map_of (directoryCache initialWorld) testUrl = None \<and>
   fetchCalls (snd (fetchSignaturesDirectory (fetchOk testDirectory) 150
                      (snd (fetchSignaturesDirectory (fetchOk testDirectory) 0 initialWorld
                              testUrl (Some 100))) testUrl (Some 100))) =
     [testUrl, testUrl]"
proof -
  let ?entry = "\<lparr>data = testDirectory, timestamp = 0\<rparr>"
  have entry: "map_of (directoryCache cachedWorld) testUrl = Some ?entry"
    by (simp add: cachedWorld_def)
  have none: "map_of (directoryCache initialWorld) testUrl = None"
    by (simp add: initialWorld_def)
  have fresh: "50 - cache_entry.timestamp ?entry < cacheTimeoutOrDefault (Some 100)"
    by (simp add: cacheTimeoutOrDefault_def)
  have stale: "\<not> 150 - cache_entry.timestamp ?entry < cacheTimeoutOrDefault (Some 100)"
    by (simp add: cacheTimeoutOrDefault_def)
  have fails: "fetchFails fetchNotFound testUrl"
    by (simp add: fetchFails_def fetchNotFound_def)
  have calls: "fetchCalls cachedWorld = [testUrl]" "fetchCalls initialWorld = []"
    by (simp_all add: cachedWorld_def initialWorld_def)
  note hit = cache_freshness [where w = cachedWorld and u = testUrl and t = 50
      and ct = "Some 100" and f = fetchNotFound]
  note miss = cache_freshness [where w = cachedWorld and u = testUrl and t = 150
      and ct = "Some 100" and f = fetchNotFound]
  note two = cache_freshness [where w = initialWorld and u = testUrl
      and fa = "fetchOk testDirectory" and fb = "fetchOk testDirectory"]
  from hit entry fresh have
    a: "fetchSignaturesDirectory fetchNotFound 50 cachedWorld testUrl (Some 100) =
          (\<lparr>success = True, directory = Some (data ?entry), error = None, url = testUrl,
            timestamp = cache_entry.timestamp ?entry\<rparr>, cachedWorld)"
    by blast
  from miss entry stale have
    b: "fetchCalls (snd (fetchSignaturesDirectory fetchNotFound 150 cachedWorld testUrl (Some 100))) =
          fetchCalls cachedWorld @ [testUrl]"
    by blast
  from miss entry stale fails have
    c: "\<not> success (fst (fetchSignaturesDirectory fetchNotFound 150 cachedWorld testUrl (Some 100)))"
       "directory (fst (fetchSignaturesDirectory fetchNotFound 150 cachedWorld testUrl (Some 100))) = None"
    by blast+
  from two none have
    d: "fetchCalls (snd (fetchSignaturesDirectory (fetchOk testDirectory) 150
                      (snd (fetchSignaturesDirectory (fetchOk testDirectory) 0 initialWorld
                              testUrl (Some 100))) testUrl (Some 100))) =
          fetchCalls initialWorld @ [testUrl, testUrl]"
    by blast
  from entry fresh stale fails none a b c d calls show ?thesis by simp
qed

section \<open>What the structure validation guarantees\<close>

lemma truthy_string:
  assumes "truthy_opt v" and "typeof v = ''string''"
  shows "isString v"
proof (cases v)
  case None
  with assms show ?thesis by simp
next
  case (Some j)
  with assms show ?thesis by (cases j) simp_all
qed

lemma typeof_number:
  assumes "v = None \<or> typeof v = ''number''"
  shows "numberIfPresent v"
proof (cases v)
  case None
  then show ?thesis by simp
next
  case (Some j)
  with assms show ?thesis by (cases j) simp_all
qed

lemma validateJWK_Valid:
  assumes "validateJWK key = Valid"
  shows "keyInvariant key"
proof -
  from assms have
    "get_prop key ''kty'' = Some (JStr ''OKP'')"
    "get_prop key ''crv'' = Some (JStr ''Ed25519'')"
    "truthy_opt (get_prop key ''x'')" "typeof (get_prop key ''x'') = ''string''"
    "truthy_opt (get_prop key ''kid'')" "typeof (get_prop key ''kid'') = ''string''"
    "get_prop key ''nbf'' = None \<or> typeof (get_prop key ''nbf'') = ''number''"
    "get_prop key ''exp'' = None \<or> typeof (get_prop key ''exp'') = ''number''"
    by (simp_all add: validateJWK_def split: if_splits)
  then show ?thesis
    by (simp add: keyInvariant_def truthy_string typeof_number)
qed

lemma violating_key_refused:
  assumes "violatesKeyInvariants key"
  shows "validateJWK key \<noteq> Valid"
proof
  assume "validateJWK key = Valid"
  then have "keyInvariant key" by (rule validateJWK_Valid)
  with assms show False by (auto simp add: keyInvariant_def violatesKeyInvariants_def)
qed

lemma validateKeysFrom_Valid:
  assumes "validateKeysFrom i ks = Valid"
  shows "list_all (\<lambda>key. validateJWK key = Valid) ks"
  using assms
proof (induction ks arbitrary: i)
  case Nil
  then show ?case by simp
next
  case (Cons key rest)
  then show ?case by (cases "validateJWK key") auto
qed

lemma validateDirectoryStructure_Valid:
  assumes "validateDirectoryStructure d = Valid"
  shows "\<exists>ks. get_prop d ''keys'' = Some (JArr ks) \<and> ks \<noteq> [] \<and>
              list_all (\<lambda>key. validateJWK key = Valid) ks"
proof -
  from assms obtain ks where ks: "get_prop d ''keys'' = Some (JArr ks)"
    by (auto simp add: validateDirectoryStructure_def split: if_splits option.splits json.splits)
  with assms have "ks \<noteq> []" "validateKeysFrom 0 ks = Valid"
    by (auto simp add: validateDirectoryStructure_def split: if_splits)
  with ks validateKeysFrom_Valid show ?thesis by blast
qed

lemma validated_directoryInvariant:
  assumes "validateDirectoryStructure d = Valid"
  shows "directoryInvariant d"
proof -
  from validateDirectoryStructure_Valid [OF assms] obtain ks where
    ks: "get_prop d ''keys'' = Some (JArr ks)" "ks \<noteq> []"
        "list_all (\<lambda>key. validateJWK key = Valid) ks"
    by blast
  from ks(3) have "list_all keyInvariant ks"
    by (induction ks) (simp_all add: validateJWK_Valid)
  with ks show ?thesis by (simp add: directoryInvariant_def)
qed

section \<open>The cache invariant\<close>

lemma cacheValidated_invariant:
  assumes "cacheValidated cache"
  shows "cacheInvariant cache"
  using assms unfolding cacheValidated_def cacheInvariant_def
  by (induction cache) (simp_all add: validated_directoryInvariant)

lemma cacheValidated_update:
  assumes "cacheValidated cache" and "validateDirectoryStructure body = Valid"
  shows "cacheValidated (AList.update u \<lparr>data = body, timestamp = t\<rparr> cache)"
  using assms unfolding cacheValidated_def
  by (induction cache) auto

lemma fetch_cache_change:
  "directoryCache (snd (fetchSignaturesDirectory f t w u ct)) = directoryCache w \<or>
   (\<exists>response body.
      success (fst (fetchSignaturesDirectory f t w u ct)) \<and>
      f u = Inr response \<and> ok response \<and> jsonBody response = Inr body \<and>
      validateDirectoryStructure body = Valid \<and>
      directoryCache (snd (fetchSignaturesDirectory f t w u ct)) =
        AList.update u \<lparr>data = body, timestamp = t\<rparr> (directoryCache w))"
proof (cases rule: fetch_cases [where f = f and t = t and w = w and u = u and ct = ct])
  case (hit cached)
  then show ?thesis by (simp add: fetch_hit)
next
  case (rejected msg)
  then show ?thesis by (simp add: fetch_rejected)
next
  case (not_ok response)
  then show ?thesis by (simp add: fetch_not_ok)
next
  case (bad_json response msg)
  then show ?thesis by (simp add: fetch_bad_json)
next
  case (invalid_structure response body msg)
  then show ?thesis by (simp add: fetch_invalid_structure)
next
  case (stored response body)
  then show ?thesis by (simp add: fetch_stored)
qed

lemma fetch_failure_keeps_cache:
  assumes "\<not> success (fst (fetchSignaturesDirectory f t w u ct))"
  shows "directoryCache (snd (fetchSignaturesDirectory f t w u ct)) = directoryCache w"
  using assms fetch_cache_change [of f t w u ct] by blast

lemma fetch_fails_keeps_cache:
  assumes "fetchFails f u"
  shows "directoryCache (snd (fetchSignaturesDirectory f t w u ct)) = directoryCache w"
proof (cases "freshEntry (directoryCache w) u t (cacheTimeoutOrDefault ct)")
  case None
  from fetch_miss_fails [OF this assms] show ?thesis by blast
next
  case (Some cached)
  then show ?thesis by (simp add: fetch_hit)
qed

lemma fetch_preserves_validated:
  assumes "cacheValidated (directoryCache w)"
  shows "cacheValidated (directoryCache (snd (fetchSignaturesDirectory f t w u ct)))"
  using fetch_cache_change [of f t w u ct] assms
  by (auto simp add: cacheValidated_update)

lemma verify_keeps_cache:
  "directoryCache (snd (verifySignatureWithWebBotAuth e w request key dir)) = directoryCache w \<and>
   fetchCalls (snd (verifySignatureWithWebBotAuth e w request key dir)) = fetchCalls w"
  by (simp add: verifySignatureWithWebBotAuth_def Let_def split: sum.splits)

lemma validate_cache:
  fixes e :: "'v env"
  shows "directoryCache (snd (validateWebBotAuth e w request config)) = directoryCache w \<or>
         directoryCache (snd (validateWebBotAuth e w request config)) =
           directoryCache (snd (fetchSignaturesDirectory (fetch e) (now e) w
                                  (directoryUrl config) (cacheTimeout config)))"
proof (cases rule: validate_cases [where e = e and w = w and request = request and config = config])
  case no_headers
  then show ?thesis by (simp add: validate_no_headers)
next
  case (directory_failed sc dr w1)
  then show ?thesis by (simp add: validate_directory_failed)
next
  case (lookup_throws sc dr w1 dir msg)
  then show ?thesis by (simp add: validate_lookup_throws)
next
  case (unknown_key sc dr w1 dir)
  then show ?thesis by (simp add: validate_unknown_key)
next
  case (signature_invalid sc dr w1 dir key w2)
  from verify_keeps_cache [of e w1 request key dir] signature_invalid
  show ?thesis by (simp add: validate_signature_invalid)
next
  case (purpose_mismatch sc dr w1 dir key w2)
  from verify_keeps_cache [of e w1 request key dir] purpose_mismatch
  show ?thesis by (simp add: validate_purpose_mismatch)
next
  case (valid sc dr w1 dir key w2)
  from verify_keeps_cache [of e w1 request key dir] valid
  show ?thesis by (simp add: validate_success)
qed

lemma cacheValidated_write:
  assumes "cacheValidated cache" and "validateDirectoryStructure (JObj ps) = Valid"
  shows "cacheValidated (writeEntry u ps cache)"
  using assms unfolding cacheValidated_def writeEntry_def
  by (induction cache) auto

lemma run_preserves_validated:
  fixes c :: "'v call"
  assumes "cacheValidated (directoryCache (moduleState s))" and "writeIsValid c"
  shows "cacheValidated (directoryCache (moduleState (run c s)))"
proof (cases c)
  case (Fetch f t u ct)
  with assms(1) show ?thesis by (simp add: fetch_preserves_validated)
next
  case (Validate e request config)
  from validate_cache [of e "moduleState s" request config] assms(1)
    fetch_preserves_validated [OF assms(1), of "fetch e" "now e" "directoryUrl config" "cacheTimeout config"]
  show ?thesis unfolding Validate by auto
next
  case Clear
  then show ?thesis by (simp add: clearDirectoryCache_def cacheValidated_def)
next
  case (Write u ps)
  with assms show ?thesis by (simp add: cacheValidated_write)
qed

lemma runAll_preserves_validated:
  fixes calls :: "'v call list"
  assumes "cacheValidated (directoryCache (moduleState s))" and "list_all writeIsValid calls"
  shows "cacheValidated (directoryCache (moduleState (runAll calls s)))"
  using assms
proof (induction calls arbitrary: s)
  case Nil
  then show ?case by simp
next
  case (Cons c cs)
  from Cons.prems have "cacheValidated (directoryCache (moduleState (run c s)))"
    by (simp add: run_preserves_validated)
  with Cons.prems Cons.IH show ?case by simp
qed

lemma reachable_validated:
  fixes calls :: "'v call list"
  assumes "list_all writeIsValid calls"
  shows "cacheValidated (directoryCache (moduleState (runAll calls initialSession)))"
  using assms
  by (intro runAll_preserves_validated) (simp_all add: initialSession_def initialWorld_def cacheValidated_def)

text \<open>
  Claim C10, as the code has it. \<^verbatim>\<open>fetchSignaturesDirectory\<close> writes the cache only on
  the path where the response is ok, its body parses and the body passes
  \<^verbatim>\<open>validateDirectoryStructure\<close>; the write stores that body under the URL with the time
  of the call. When the result is a failure, and whenever the fetch fails (rejected, not
  ok, unparsable or structurally invalid), the cache is what it was.

  The cached object is the one handed to the caller, so the invariant of the entries
  holds as long as callers leave it intact: after any sequence of calls of
  \<^verbatim>\<open>fetchSignaturesDirectory\<close>, \<^verbatim>\<open>validateWebBotAuth\<close> and \<^verbatim>\<open>clearDirectoryCache\<close> and of
  caller writes to returned directories, from the state in which the module is loaded,
  in which every write leaves a directory that passes the validator (in particular when
  no caller writes at all), every entry of the cache holds a directory that passes the
  validator, and so one with a non-empty key array in which every key satisfies the Key
  invariants.
\<close>

theorem cache_holds_valid_directories:
  fixes calls :: "'v call list"
  shows
    "(\<not> success (fst (fetchSignaturesDirectory f t w u ct)) \<longrightarrow>
        directoryCache (snd (fetchSignaturesDirectory f t w u ct)) = directoryCache w) \<and>
     (fetchFails f u \<longrightarrow>
        directoryCache (snd (fetchSignaturesDirectory f t w u ct)) = directoryCache w) \<and>
     (directoryCache (snd (fetchSignaturesDirectory f t w u ct)) \<noteq> directoryCache w \<longrightarrow>
        (\<exists>response body.
           success (fst (fetchSignaturesDirectory f t w u ct)) \<and>
           f u = Inr response \<and> ok response \<and> jsonBody response = Inr body \<and>
           validateDirectoryStructure body = Valid \<and>
           directoryCache (snd (fetchSignaturesDirectory f t w u ct)) =
             AList.update u \<lparr>data = body, timestamp = t\<rparr> (directoryCache w))) \<and>
     (list_all writeIsValid calls \<longrightarrow>
        cacheValidated (directoryCache (moduleState (runAll calls initialSession))) \<and>
        cacheInvariant (directoryCache (moduleState (runAll calls initialSession))))"
proof (intro conjI impI)
  assume "\<not> success (fst (fetchSignaturesDirectory f t w u ct))"
  then show "directoryCache (snd (fetchSignaturesDirectory f t w u ct)) = directoryCache w"
    by (rule fetch_failure_keeps_cache)
next
  assume "fetchFails f u"
  then show "directoryCache (snd (fetchSignaturesDirectory f t w u ct)) = directoryCache w"
    by (rule fetch_fails_keeps_cache)
next
  assume "directoryCache (snd (fetchSignaturesDirectory f t w u ct)) \<noteq> directoryCache w"
  with fetch_cache_change [of f t w u ct]
  show "\<exists>response body.
           success (fst (fetchSignaturesDirectory f t w u ct)) \<and>
           f u = Inr response \<and> ok response \<and> jsonBody response = Inr body \<and>
           validateDirectoryStructure body = Valid \<and>
           directoryCache (snd (fetchSignaturesDirectory f t w u ct)) =
             AList.update u \<lparr>data = body, timestamp = t\<rparr> (directoryCache w)"
    by blast
next
  assume "list_all writeIsValid calls"
  then show "cacheValidated (directoryCache (moduleState (runAll calls initialSession)))"
    by (rule reachable_validated)
next
  assume "list_all writeIsValid calls"
  then have "cacheValidated (directoryCache (moduleState (runAll calls initialSession)))"
    by (rule reachable_validated)
  then show "cacheInvariant (directoryCache (moduleState (runAll calls initialSession)))"
    by (rule cacheValidated_invariant)
qed

text \<open>
  The claim as written fails. A caller resolves the test directory, which is validated
  and cached, and is handed the cached object. It then empties the object's key array.
  The entry of the cache now holds a directory with an empty key array, and the next
  resolve within the freshness window returns it as a success without fetching.
\<close>

theorem caller_write_counterexample:
  "fst (fetchSignaturesDirectory (fetchOk testDirectory) 0 initialWorld testUrl (Some 1000)) =
     \<lparr>success = True, directory = Some testDirectory, error = None, url = testUrl,
       timestamp = 0\<rparr> \<and>
   handedOut (runAll (take 1 fetchThenWrite) initialSession) = [testUrl] \<and>
   directoryCache (moduleState (runAll (take 1 fetchThenWrite) initialSession)) =
     [(testUrl, \<lparr>data = testDirectory, timestamp = 0\<rparr>)] \<and>
   directoryCache (moduleState (runAll fetchThenWrite initialSession)) =
     [(testUrl, \<lparr>data = JObj emptiedDirectory, timestamp = 0\<rparr>)] \<and>
   get_prop (JObj emptiedDirectory) ''keys'' = Some (JArr []) \<and>
   \<not> directoryInvariant (JObj emptiedDirectory) \<and>
   \<not> cacheInvariant (directoryCache (moduleState (runAll fetchThenWrite initialSession))) \<and>
   fetchSignaturesDirectory fetchNotFound 10 (moduleState (runAll fetchThenWrite initialSession))
       testUrl (Some 1000) =
     (\<lparr>success = True, directory = Some (JObj emptiedDirectory), error = None, url = testUrl,
       timestamp = 0\<rparr>, moduleState (runAll fetchThenWrite initialSession))"
  by code_simp

theorem cache_holds_valid_directories_witness:
  "\<not> success (fst (fetchSignaturesDirectory fetchNotFound 150 cachedWorld testUrl (Some 100))) \<and>
   fetchFails fetchNotFound testUrl \<and>
   directoryCache (snd (fetchSignaturesDirectory fetchNotFound 150 cachedWorld testUrl (Some 100))) =
     directoryCache cachedWorld \<and>
   directoryCache (snd (fetchSignaturesDirectory (fetchOk testDirectory) 0 initialWorld testUrl (Some 100)))
     \<noteq> directoryCache initialWorld \<and>
   validateDirectoryStructure testDirectory = Valid \<and>
   directoryCache (snd (fetchSignaturesDirectory (fetchOk testDirectory) 0 initialWorld testUrl (Some 100))) =
     AList.update testUrl \<lparr>data = testDirectory, timestamp = 0\<rparr> (directoryCache initialWorld) \<and>
   list_all writeIsValid
     [Fetch (fetchOk testDirectory) 0 testUrl (Some 100),
      Write testUrl [(''keys'', JArr [testKey, testKey])],
      Validate (testEnv fetchNotFound 151) signedRequest testConfig,
      Fetch (fetchOk rsaDirectory) 200 testUrl (Some 100)] \<and>
   directoryCache (moduleState (runAll
     [Fetch (fetchOk testDirectory) 0 testUrl (Some 100),
      Write testUrl [(''keys'', JArr [testKey, testKey])],
      Validate (testEnv fetchNotFound 151) signedRequest testConfig,
      Fetch (fetchOk rsaDirectory) 200 testUrl (Some 100)] initialSession)) =
     [(testUrl, \<lparr>data = JObj [(''keys'', JArr [testKey, testKey])], timestamp = 0\<rparr>)] \<and>
   cacheInvariant (directoryCache (moduleState (runAll
     [Fetch (fetchOk testDirectory) 0 testUrl (Some 100),
      Write testUrl [(''keys'', JArr [testKey, testKey])],
      Validate (testEnv fetchNotFound 151) signedRequest testConfig,
      Fetch (fetchOk rsaDirectory) 200 testUrl (Some 100)] initialSession)))"
proof -
  let ?calls = "[Fetch (fetchOk testDirectory) 0 testUrl (Some 100),
      Write testUrl [(''keys'', JArr [testKey, testKey])],
      Validate (testEnv fetchNotFound 151) signedRequest testConfig,
      Fetch (fetchOk rsaDirectory) 200 testUrl (Some 100)] :: unit call list"
  note failing = cache_holds_valid_directories [where f = fetchNotFound and t = 150
      and w = cachedWorld and u = testUrl and ct = "Some 100" and calls = ?calls]
  note storing = cache_holds_valid_directories [where f = "fetchOk testDirectory" and t = 0
      and w = initialWorld and u = testUrl and ct = "Some 100" and calls = ?calls]
  have failed: "\<not> success (fst (fetchSignaturesDirectory fetchNotFound 150 cachedWorld testUrl (Some 100)))"
    by code_simp
  have fails: "fetchFails fetchNotFound testUrl"
    by (simp add: fetchFails_def fetchNotFound_def)
  have changed:
    "directoryCache (snd (fetchSignaturesDirectory (fetchOk testDirectory) 0 initialWorld testUrl (Some 100)))
       \<noteq> directoryCache initialWorld"
    by code_simp
  have response: "fetchOk testDirectory testUrl =
      Inr \<lparr>ok = True, status = 200, statusText = ''OK'', jsonBody = Inr testDirectory\<rparr>"
    by (simp add: fetchOk_def)
  have writes: "list_all writeIsValid ?calls"
    by code_simp
  have final: "directoryCache (moduleState (runAll ?calls initialSession)) =
     [(testUrl, \<lparr>data = JObj [(''keys'', JArr [testKey, testKey])], timestamp = 0\<rparr>)]"
    by code_simp
  from failing failed have
    a: "directoryCache (snd (fetchSignaturesDirectory fetchNotFound 150 cachedWorld testUrl (Some 100))) =
          directoryCache cachedWorld"
    by blast
  from storing changed obtain resp body where
    "fetchOk testDirectory testUrl = Inr resp" "jsonBody resp = Inr body"
    "validateDirectoryStructure body = Valid"
    "directoryCache (snd (fetchSignaturesDirectory (fetchOk testDirectory) 0 initialWorld testUrl (Some 100))) =
       AList.update testUrl \<lparr>data = body, timestamp = 0\<rparr> (directoryCache initialWorld)"
    by blast
  with response have
    b: "validateDirectoryStructure testDirectory = Valid"
       "directoryCache (snd (fetchSignaturesDirectory (fetchOk testDirectory) 0 initialWorld testUrl (Some 100))) =
          AList.update testUrl \<lparr>data = testDirectory, timestamp = 0\<rparr> (directoryCache initialWorld)"
    by auto
  from failing writes have c: "cacheInvariant (directoryCache (moduleState (runAll ?calls initialSession)))"
    by blast
  from failed fails changed a b writes final c show ?thesis by blast
qed

section \<open>Invalid keys are refused when the directory is parsed\<close>

lemma typeof_string:
  "typeof v = ''string'' \<longleftrightarrow> isString v"
proof (cases v)
  case None
  then show ?thesis by simp
next
  case (Some j)
  then show ?thesis by (cases j) simp_all
qed

lemma get_prop_Some_object:
  assumes "get_prop v name = Some x"
  shows "truthy v \<and> typeof (Some v) = ''object''"
  using assms by (cases v) simp_all

lemma validateJWK_names_constraint:
  assumes "validateJWK key = Invalid msg"
  shows "(\<not> (truthy key \<and> typeof (Some key) = ''object'') \<longrightarrow> msg = ''Key is not an object'') \<and>
         (truthy key \<and> typeof (Some key) = ''object'' \<and>
          get_prop key ''kty'' \<noteq> Some (JStr ''OKP'') \<longrightarrow>
            msg = ''Key type must be '' @ dq @ ''OKP'' @ dq @ '' for Ed25519'') \<and>
         (get_prop key ''kty'' = Some (JStr ''OKP'') \<and>
          get_prop key ''crv'' \<noteq> Some (JStr ''Ed25519'') \<longrightarrow>
            msg = ''Curve must be '' @ dq @ ''Ed25519'' @ dq) \<and>
         (get_prop key ''kty'' = Some (JStr ''OKP'') \<and>
          get_prop key ''crv'' = Some (JStr ''Ed25519'') \<and>
          \<not> isString (get_prop key ''x'') \<longrightarrow>
            msg = ''Missing or invalid '' @ dq @ ''x'' @ dq @ '' coordinate'') \<and>
         (get_prop key ''kty'' = Some (JStr ''OKP'') \<and>
          get_prop key ''crv'' = Some (JStr ''Ed25519'') \<and>
          isString (get_prop key ''x'') \<and> truthy_opt (get_prop key ''x'') \<and>
          \<not> isString (get_prop key ''kid'') \<longrightarrow>
            msg = ''Missing or invalid '' @ dq @ ''kid'' @ dq @ '' (Key ID)'')"
proof (cases "truthy key \<and> typeof (Some key) = ''object''")
  case False
  then have "get_prop key ''kty'' \<noteq> Some (JStr ''OKP'')"
    using get_prop_Some_object [of key "''kty''" "JStr ''OKP''"] by blast
  with False assms show ?thesis by (auto simp add: validateJWK_def)
next
  case obj: True
  show ?thesis
  proof (cases "get_prop key ''kty'' = Some (JStr ''OKP'')")
    case False
    with assms obj show ?thesis by (simp add: validateJWK_def)
  next
    case kty: True
    show ?thesis
    proof (cases "get_prop key ''crv'' = Some (JStr ''Ed25519'')")
      case False
      with assms obj kty show ?thesis by (simp add: validateJWK_def)
    next
      case crv: True
      show ?thesis
      proof (cases "truthy_opt (get_prop key ''x'') \<and> isString (get_prop key ''x'')")
        case False
        with assms obj kty crv show ?thesis
          by (auto simp add: validateJWK_def typeof_string)
      next
        case x: True
        with assms obj kty crv show ?thesis
          by (auto simp add: validateJWK_def typeof_string split: if_splits)
      qed
    qed
  qed
qed

lemma validateKeysFrom_first_refused:
  assumes "\<exists>key \<in> set ks. validateJWK key \<noteq> Valid"
  shows "\<exists>i msg. i < length ks \<and> validateJWK (ks ! i) = Invalid msg \<and>
           (\<forall>j<i. validateJWK (ks ! j) = Valid) \<and>
           validateKeysFrom n ks =
             Invalid (''Invalid key at index '' @ show_nat (n + i) @ '': '' @ msg)"
  using assms
proof (induction ks arbitrary: n)
  case Nil
  then show ?case by simp
next
  case (Cons key rest)
  show ?case
  proof (cases "validateJWK key")
    case (Invalid msg)
    then have "0 < length (key # rest) \<and> validateJWK ((key # rest) ! 0) = Invalid msg \<and>
           (\<forall>j<0. validateJWK ((key # rest) ! j) = Valid) \<and>
           validateKeysFrom n (key # rest) =
             Invalid (''Invalid key at index '' @ show_nat (n + 0) @ '': '' @ msg)"
      by simp
    then show ?thesis by blast
  next
    case Valid
    with Cons.prems have "\<exists>k \<in> set rest. validateJWK k \<noteq> Valid" by auto
    from Cons.IH [OF this, of "Suc n"] obtain i msg where
      i: "i < length rest" "validateJWK (rest ! i) = Invalid msg"
         "\<forall>j<i. validateJWK (rest ! j) = Valid"
         "validateKeysFrom (Suc n) rest =
            Invalid (''Invalid key at index '' @ show_nat (Suc n + i) @ '': '' @ msg)"
      by blast
    have before: "\<forall>j<Suc i. validateJWK ((key # rest) ! j) = Valid"
    proof (intro allI impI)
      fix j
      assume "j < Suc i"
      with Valid i(3) show "validateJWK ((key # rest) ! j) = Valid"
        by (cases j) auto
    qed
    from Valid i before have
      "Suc i < length (key # rest) \<and> validateJWK ((key # rest) ! Suc i) = Invalid msg \<and>
       (\<forall>j<Suc i. validateJWK ((key # rest) ! j) = Valid) \<and>
       validateKeysFrom n (key # rest) =
         Invalid (''Invalid key at index '' @ show_nat (n + Suc i) @ '': '' @ msg)"
      by simp
    then show ?thesis by blast
  qed
qed

lemma structure_with_refused_key:
  assumes "get_prop body ''keys'' = Some (JArr ks)"
    and "\<exists>key \<in> set ks. validateJWK key \<noteq> Valid"
  shows "\<exists>i msg. i < length ks \<and> validateJWK (ks ! i) = Invalid msg \<and>
           (\<forall>j<i. validateJWK (ks ! j) = Valid) \<and>
           validateDirectoryStructure body =
             Invalid (''Invalid key at index '' @ show_nat i @ '': '' @ msg)"
proof -
  from assms(1) obtain ps where "body = JObj ps" by (cases body) simp_all
  moreover from assms(2) have "ks \<noteq> []" by auto
  ultimately have "validateDirectoryStructure body = validateKeysFrom 0 ks"
    using assms(1) by (simp add: validateDirectoryStructure_def)
  with validateKeysFrom_first_refused [OF assms(2), of 0] show ?thesis by simp
qed

text \<open>
  Claim C7. Let a directory be fetched (no fresh cache entry, response ok, body parsed)
  whose \<^verbatim>\<open>keys\<close> array contains a key that violates the Key invariants: a key type
  other than \<^verbatim>\<open>OKP\<close>, a curve other than \<^verbatim>\<open>Ed25519\<close>, or an \<^verbatim>\<open>x\<close> or \<^verbatim>\<open>kid\<close> that is
  missing or not a string. Then resolution fails at once with a structure error that
  reports the index \<open>i\<close> of the first key the validator refuses (every key before it is
  accepted and violates nothing) together with the validator's message for that key,
  and the message names the first constraint that key violates, in the order object,
  key type, curve, \<^verbatim>\<open>x\<close>, \<^verbatim>\<open>kid\<close>. No directory is returned and the cache is not written,
  so such a key never reaches the key lookup or the signature check.
\<close>

theorem invalid_key_refused_at_parse_time:
  assumes "freshEntry (directoryCache w) u t (cacheTimeoutOrDefault ct) = None"
    and "f u = Inr response" and "ok response" and "jsonBody response = Inr body"
    and "get_prop body ''keys'' = Some (JArr ks)"
    and "key \<in> set ks" and "violatesKeyInvariants key"
  shows "\<exists>i msg.
           i < length ks \<and> validateJWK (ks ! i) = Invalid msg \<and>
           (\<forall>j<i. validateJWK (ks ! j) = Valid \<and> \<not> violatesKeyInvariants (ks ! j)) \<and>
           (\<not> (truthy (ks ! i) \<and> typeof (Some (ks ! i)) = ''object'') \<longrightarrow>
              msg = ''Key is not an object'') \<and>
           (truthy (ks ! i) \<and> typeof (Some (ks ! i)) = ''object'' \<and>
            get_prop (ks ! i) ''kty'' \<noteq> Some (JStr ''OKP'') \<longrightarrow>
              msg = ''Key type must be '' @ dq @ ''OKP'' @ dq @ '' for Ed25519'') \<and>
           (get_prop (ks ! i) ''kty'' = Some (JStr ''OKP'') \<and>
            get_prop (ks ! i) ''crv'' \<noteq> Some (JStr ''Ed25519'') \<longrightarrow>
              msg = ''Curve must be '' @ dq @ ''Ed25519'' @ dq) \<and>
           (get_prop (ks ! i) ''kty'' = Some (JStr ''OKP'') \<and>
            get_prop (ks ! i) ''crv'' = Some (JStr ''Ed25519'') \<and>
            \<not> isString (get_prop (ks ! i) ''x'') \<longrightarrow>
              msg = ''Missing or invalid '' @ dq @ ''x'' @ dq @ '' coordinate'') \<and>
           (get_prop (ks ! i) ''kty'' = Some (JStr ''OKP'') \<and>
            get_prop (ks ! i) ''crv'' = Some (JStr ''Ed25519'') \<and>
            isString (get_prop (ks ! i) ''x'') \<and> truthy_opt (get_prop (ks ! i) ''x'') \<and>
            \<not> isString (get_prop (ks ! i) ''kid'') \<longrightarrow>
              msg = ''Missing or invalid '' @ dq @ ''kid'' @ dq @ '' (Key ID)'') \<and>
           fetchSignaturesDirectory f t w u ct =
             (\<lparr>success = False, directory = None,
               error = Some (''Invalid directory structure: Invalid key at index ''
                             @ show_nat i @ '': '' @ msg),
               url = u, timestamp = t\<rparr>,
              w\<lparr>fetchCalls := fetchCalls w @ [u]\<rparr>)"
proof -
  from assms(6,7) have "\<exists>k \<in> set ks. validateJWK k \<noteq> Valid"
    using violating_key_refused by blast
  from structure_with_refused_key [OF assms(5) this] obtain i msg where
    i: "i < length ks" "validateJWK (ks ! i) = Invalid msg"
       "\<forall>j<i. validateJWK (ks ! j) = Valid"
       "validateDirectoryStructure body =
          Invalid (''Invalid key at index '' @ show_nat i @ '': '' @ msg)"
    by blast
  from i(3) have before: "\<forall>j<i. validateJWK (ks ! j) = Valid \<and> \<not> violatesKeyInvariants (ks ! j)"
    using violating_key_refused by blast
  note names = validateJWK_names_constraint [OF i(2)]
  note result = fetch_invalid_structure [where f = f and u = u and w = w and t = t and ct = ct,
      OF assms(1-4) i(4)]
  from i(1,2) before names result show ?thesis
    by (intro exI [of _ i] exI [of _ msg]) simp
qed

theorem invalid_key_refused_at_parse_time_witness:
  "freshEntry (directoryCache initialWorld) testUrl 0 (cacheTimeoutOrDefault None) = None \<and>
   fetchOk rsaDirectory testUrl =
     Inr \<lparr>ok = True, status = 200, statusText = ''OK'', jsonBody = Inr rsaDirectory\<rparr> \<and>
   get_prop rsaDirectory ''keys'' = Some (JArr [testKey, rsaKey]) \<and>
   violatesKeyInvariants rsaKey \<and>
   fetchSignaturesDirectory (fetchOk rsaDirectory) 0 initialWorld testUrl None =
     (\<lparr>success = False, directory = None,
       error = Some (''Invalid directory structure: Invalid key at index 1: Key type must be ''
                     @ dq @ ''OKP'' @ dq @ '' for Ed25519''),
       url = testUrl, timestamp = 0\<rparr>,
      initialWorld\<lparr>fetchCalls := fetchCalls initialWorld @ [testUrl]\<rparr>)"
proof -
  let ?response = "\<lparr>ok = True, status = 200, statusText = ''OK'', jsonBody = Inr rsaDirectory\<rparr>"
  have miss: "freshEntry (directoryCache initialWorld) testUrl 0 (cacheTimeoutOrDefault None) = None"
    by (simp add: freshEntry_def initialWorld_def)
  have response: "fetchOk rsaDirectory testUrl = Inr ?response"
    by (simp add: fetchOk_def)
  have ok: "ok ?response" and body: "jsonBody ?response = Inr rsaDirectory"
    by simp_all
  have ks: "get_prop rsaDirectory ''keys'' = Some (JArr [testKey, rsaKey])"
    by (simp add: rsaDirectory_def)
  have mem: "rsaKey \<in> set [testKey, rsaKey]" by simp
  have bad: "violatesKeyInvariants rsaKey"
    by (simp add: violatesKeyInvariants_def rsaKey_def)
  have first: "validateJWK testKey = Valid" by code_simp
  have digit: "show_nat 1 = ''1''" by code_simp
  from invalid_key_refused_at_parse_time [where f = "fetchOk rsaDirectory" and u = testUrl
      and w = initialWorld and t = 0 and ct = None, OF miss response ok body ks mem bad]
  obtain i msg where
    i: "i < length [testKey, rsaKey]" "validateJWK ([testKey, rsaKey] ! i) = Invalid msg"
    and kty: "truthy ([testKey, rsaKey] ! i) \<and> typeof (Some ([testKey, rsaKey] ! i)) = ''object'' \<and>
              get_prop ([testKey, rsaKey] ! i) ''kty'' \<noteq> Some (JStr ''OKP'') \<longrightarrow>
                msg = ''Key type must be '' @ dq @ ''OKP'' @ dq @ '' for Ed25519''"
    and res: "fetchSignaturesDirectory (fetchOk rsaDirectory) 0 initialWorld testUrl None =
             (\<lparr>success = False, directory = None,
               error = Some (''Invalid directory structure: Invalid key at index ''
                             @ show_nat i @ '': '' @ msg),
               url = testUrl, timestamp = 0\<rparr>,
              initialWorld\<lparr>fetchCalls := fetchCalls initialWorld @ [testUrl]\<rparr>)"
    by blast
  from i first have "i = 1" by (cases i) auto
  with kty have "msg = ''Key type must be '' @ dq @ ''OKP'' @ dq @ '' for Ed25519''"
    by (simp add: rsaKey_def)
  with res \<open>i = 1\<close> digit have
    "fetchSignaturesDirectory (fetchOk rsaDirectory) 0 initialWorld testUrl None =
     (\<lparr>success = False, directory = None,
       error = Some (''Invalid directory structure: Invalid key at index 1: Key type must be ''
                     @ dq @ ''OKP'' @ dq @ '' for Ed25519''),
       url = testUrl, timestamp = 0\<rparr>,
      initialWorld\<lparr>fetchCalls := fetchCalls initialWorld @ [testUrl]\<rparr>)"
    by simp
  with miss response ks bad show ?thesis by blast
qed

section \<open>Key lookup\<close>

lemma validated_keys_not_null:
  assumes "list_all (\<lambda>key. validateJWK key = Valid) ks"
  shows "JNull \<notin> set ks"
proof
  assume "JNull \<in> set ks"
  with assms have "validateJWK JNull = Valid" by (simp add: list_all_iff)
  then show False by (simp add: validateJWK_def)
qed

lemma findKid_first:
  assumes "i < length ks"
    and "get_prop (ks ! i) ''kid'' = Some (JStr k)"
    and "\<forall>j<i. ks ! j \<noteq> JNull \<and> get_prop (ks ! j) ''kid'' \<noteq> Some (JStr k)"
  shows "findKid ks k = Inr (Some (ks ! i))"
  using assms
proof (induction ks arbitrary: i)
  case Nil
  then show ?case by simp
next
  case (Cons key rest)
  show ?case
  proof (cases i)
    case 0
    with Cons.prems(2) have kid: "get_prop key ''kid'' = Some (JStr k)" by simp
    then have "key \<noteq> JNull" by auto
    with kid 0 show ?thesis by simp
  next
    case (Suc n)
    with Cons.prems(3) have head: "key \<noteq> JNull" "get_prop key ''kid'' \<noteq> Some (JStr k)"
      by auto
    from Suc Cons.prems have "n < length rest" "get_prop (rest ! n) ''kid'' = Some (JStr k)"
      by simp_all
    moreover have "\<forall>j<n. rest ! j \<noteq> JNull \<and> get_prop (rest ! j) ''kid'' \<noteq> Some (JStr k)"
    proof (intro allI impI)
      fix j
      assume "j < n"
      then have "Suc j < i" using Suc by simp
      with Cons.prems(3) show "rest ! j \<noteq> JNull \<and> get_prop (rest ! j) ''kid'' \<noteq> Some (JStr k)"
        by fastforce
    qed
    ultimately have "findKid rest k = Inr (Some (rest ! n))" by (rule Cons.IH)
    with head Suc show ?thesis by simp
  qed
qed

lemma first_index_with_kid:
  assumes "\<exists>key \<in> set ks. get_prop key ''kid'' = Some (JStr k)"
  shows "\<exists>i<length ks. get_prop (ks ! i) ''kid'' = Some (JStr k) \<and>
           (\<forall>j<i. get_prop (ks ! j) ''kid'' \<noteq> Some (JStr k))"
  using assms
proof (induction ks)
  case Nil
  then show ?case by simp
next
  case (Cons key rest)
  show ?case
  proof (cases "get_prop key ''kid'' = Some (JStr k)")
    case True
    then have "0 < length (key # rest) \<and> get_prop ((key # rest) ! 0) ''kid'' = Some (JStr k) \<and>
           (\<forall>j<0. get_prop ((key # rest) ! j) ''kid'' \<noteq> Some (JStr k))"
      by simp
    then show ?thesis by blast
  next
    case False
    with Cons.prems have "\<exists>key \<in> set rest. get_prop key ''kid'' = Some (JStr k)" by auto
    from Cons.IH [OF this] obtain i where
      i: "i < length rest" "get_prop (rest ! i) ''kid'' = Some (JStr k)"
         "\<forall>j<i. get_prop (rest ! j) ''kid'' \<noteq> Some (JStr k)"
      by blast
    have "\<forall>j<Suc i. get_prop ((key # rest) ! j) ''kid'' \<noteq> Some (JStr k)"
    proof (intro allI impI)
      fix j
      assume "j < Suc i"
      with False i(3) show "get_prop ((key # rest) ! j) ''kid'' \<noteq> Some (JStr k)"
        by (cases j) auto
    qed
    with i have "Suc i < length (key # rest) \<and>
           get_prop ((key # rest) ! Suc i) ''kid'' = Some (JStr k) \<and>
           (\<forall>j<Suc i. get_prop ((key # rest) ! j) ''kid'' \<noteq> Some (JStr k))"
      by simp
    then show ?thesis by blast
  qed
qed

lemma findKid_found:
  assumes "JNull \<notin> set ks"
    and "\<exists>key \<in> set ks. get_prop key ''kid'' = Some (JStr k)"
  shows "\<exists>i<length ks. get_prop (ks ! i) ''kid'' = Some (JStr k) \<and>
           (\<forall>j<i. get_prop (ks ! j) ''kid'' \<noteq> Some (JStr k)) \<and>
           findKid ks k = Inr (Some (ks ! i))"
proof -
  from first_index_with_kid [OF assms(2)] obtain i where
    i: "i < length ks" "get_prop (ks ! i) ''kid'' = Some (JStr k)"
       "\<forall>j<i. get_prop (ks ! j) ''kid'' \<noteq> Some (JStr k)"
    by blast
  have "\<forall>j<i. ks ! j \<noteq> JNull \<and> get_prop (ks ! j) ''kid'' \<noteq> Some (JStr k)"
  proof (intro allI impI)
    fix j
    assume "j < i"
    with i(1) have "ks ! j \<in> set ks" by simp
    with assms(1) have "ks ! j \<noteq> JNull" by auto
    with i(3) \<open>j < i\<close> show "ks ! j \<noteq> JNull \<and> get_prop (ks ! j) ''kid'' \<noteq> Some (JStr k)"
      by simp
  qed
  from findKid_first [OF i(1,2) this] i show ?thesis by blast
qed

lemma findKid_absent:
  assumes "JNull \<notin> set ks"
    and "\<forall>key \<in> set ks. get_prop key ''kid'' \<noteq> Some (JStr k)"
  shows "findKid ks k = Inr None"
  using assms by (induction ks) auto

lemma cached_entry_validated:
  assumes "cacheValidated cache" and "map_of cache u = Some entry"
  shows "validateDirectoryStructure (data entry) = Valid"
proof -
  from assms(2) have "(u, entry) \<in> set cache" by (rule map_of_SomeD)
  with assms(1) show ?thesis by (auto simp add: cacheValidated_def list_all_iff)
qed

lemma fetch_success_validated:
  assumes "cacheValidated (directoryCache w)"
    and "fetchSignaturesDirectory f t w u ct = (dr, w1)"
    and "success dr"
  shows "\<exists>dir. directory dr = Some dir \<and> validateDirectoryStructure dir = Valid"
proof (cases rule: fetch_cases [where f = f and t = t and w = w and u = u and ct = ct])
  case (hit cached)
  then have "map_of (directoryCache w) u = Some cached"
    by (auto simp add: freshEntry_def split: option.splits if_splits)
  with assms(1) have "validateDirectoryStructure (data cached) = Valid"
    by (rule cached_entry_validated)
  with hit assms(2) show ?thesis by (auto simp add: fetch_hit)
next
  case (rejected msg)
  with assms(2,3) show ?thesis by (auto simp add: fetch_rejected)
next
  case (not_ok response)
  with assms(2,3) show ?thesis by (auto simp add: fetch_not_ok)
next
  case (bad_json response msg)
  with assms(2,3) show ?thesis by (auto simp add: fetch_bad_json)
next
  case (invalid_structure response body msg)
  with assms(2,3) show ?thesis by (auto simp add: fetch_invalid_structure)
next
  case (stored response body)
  with assms(2) show ?thesis by (auto simp add: fetch_stored)
qed

lemma validated_directory_keys:
  assumes "validateDirectoryStructure dir = Valid"
  shows "\<exists>ks. get_prop dir ''keys'' = Some (JArr ks) \<and> JNull \<notin> set ks \<and> truthy dir"
proof -
  from validateDirectoryStructure_Valid [OF assms] obtain ks where
    ks: "get_prop dir ''keys'' = Some (JArr ks)" "list_all (\<lambda>key. validateJWK key = Valid) ks"
    by blast
  from ks(1) have "truthy dir" using get_prop_Some_object by blast
  with ks validated_keys_not_null show ?thesis by blast
qed

lemma matched_key_outcome:
  fixes e :: "'v env"
  assumes "extractSignatureComponents request = Some sc"
    and "fetchSignaturesDirectory (fetch e) (now e) w (directoryUrl config) (cacheTimeout config) = (dr, w1)"
    and "success dr" and "directory dr = Some dir" and "truthy dir"
    and "findKeyById dir (orEmpty (keyId sc)) = Inr (Some key)"
  shows "keyMatched (details (fst (validateWebBotAuth e w request config))) \<and>
         ValidationResult.error (fst (validateWebBotAuth e w request config)) \<noteq>
           Some (''No matching key found for kid: '' @ template_str (keyId sc)) \<and>
         (isValid (fst (validateWebBotAuth e w request config)) \<longleftrightarrow>
            fst (verifySignatureWithWebBotAuth e w1 request key dir) \<and> \<not> purposeMismatch config dir)"
proof -
  obtain sigValid w2 where v: "verifySignatureWithWebBotAuth e w1 request key dir = (sigValid, w2)"
    by (cases "verifySignatureWithWebBotAuth e w1 request key dir")
  show ?thesis
  proof (cases sigValid)
    case False
    with v have "verifySignatureWithWebBotAuth e w1 request key dir = (False, w2)" by simp
    from validate_signature_invalid [OF assms this] this show ?thesis by simp
  next
    case True
    with v have v': "verifySignatureWithWebBotAuth e w1 request key dir = (True, w2)" by simp
    show ?thesis
    proof (cases "purposeMismatch config dir")
      case True
      from validate_purpose_mismatch [OF assms v' this] v' this show ?thesis by simp
    next
      case False
      from validate_success [OF assms v' this] v' this show ?thesis by simp
    qed
  qed
qed

text \<open>
  Claim C1, as the code has it. The key lookup does not read \<^verbatim>\<open>nbf\<close> or \<^verbatim>\<open>exp\<close>, and no
  other step compares them with the clock. In a state whose cache holds validated
  directories only, let the headers be present and the resolver succeed with a
  directory whose key array is \<open>ks\<close>.

  \<^item> If some key of \<open>ks\<close> has the \<^verbatim>\<open>kid\<close> of the signature-input, inside its validity
    window or not, the lookup returns the first such key of the array: the key at the
    index \<open>i\<close> before which no key has that \<^verbatim>\<open>kid\<close>. The result has
    \<^verbatim>\<open>keyMatched = true\<close>, its error is not the unknown-key message, and it is valid
    exactly when the signature check on that key succeeds and the purpose test passes.
  \<^item> The unknown-key result is returned when no key of \<open>ks\<close> has that \<^verbatim>\<open>kid\<close>.
\<close>

theorem key_match_ignores_validity_window:
  fixes e :: "'v env"
  assumes "cacheValidated (directoryCache w)"
    and "extractSignatureComponents request = Some sc"
    and "fetchSignaturesDirectory (fetch e) (now e) w (directoryUrl config) (cacheTimeout config) = (dr, w1)"
    and "success dr"
  shows "\<exists>dir ks.
           directory dr = Some dir \<and> get_prop dir ''keys'' = Some (JArr ks) \<and>
           ((\<exists>key \<in> set ks. get_prop key ''kid'' = Some (JStr (orEmpty (keyId sc)))) \<longrightarrow>
              (\<exists>i<length ks.
                 get_prop (ks ! i) ''kid'' = Some (JStr (orEmpty (keyId sc))) \<and>
                 (\<forall>j<i. get_prop (ks ! j) ''kid'' \<noteq> Some (JStr (orEmpty (keyId sc)))) \<and>
                 findKeyById dir (orEmpty (keyId sc)) = Inr (Some (ks ! i)) \<and>
                 keyMatched (details (fst (validateWebBotAuth e w request config))) \<and>
                 ValidationResult.error (fst (validateWebBotAuth e w request config)) \<noteq>
                   Some (''No matching key found for kid: '' @ template_str (keyId sc)) \<and>
                 (isValid (fst (validateWebBotAuth e w request config)) \<longleftrightarrow>
                    fst (verifySignatureWithWebBotAuth e w1 request (ks ! i) dir) \<and>
                    \<not> purposeMismatch config dir))) \<and>
           ((\<forall>key \<in> set ks. get_prop key ''kid'' \<noteq> Some (JStr (orEmpty (keyId sc)))) \<longrightarrow>
              validateWebBotAuth e w request config =
                (\<lparr>isValid = False,
                  error = Some (''No matching key found for kid: '' @ template_str (keyId sc)),
                  details = \<lparr>signatureFound = True, directoryFetched = True,
                              keyMatched = False, signatureValid = False\<rparr>,
                  metadata = None\<rparr>, w1))"
proof -
  from fetch_success_validated [OF assms(1,3,4)] obtain dir where
    dir: "directory dr = Some dir" "validateDirectoryStructure dir = Valid"
    by blast
  from validated_directory_keys [OF dir(2)] obtain ks where
    ks: "get_prop dir ''keys'' = Some (JArr ks)" "JNull \<notin> set ks" "truthy dir"
    by blast
  let ?k = "orEmpty (keyId sc)"
  from ks(1) have lookup: "findKeyById dir ?k = findKid ks ?k"
    by (simp add: findKeyById_def)
  have matched:
    "\<exists>i<length ks.
        get_prop (ks ! i) ''kid'' = Some (JStr ?k) \<and>
        (\<forall>j<i. get_prop (ks ! j) ''kid'' \<noteq> Some (JStr ?k)) \<and>
        findKeyById dir ?k = Inr (Some (ks ! i)) \<and>
        keyMatched (details (fst (validateWebBotAuth e w request config))) \<and>
        ValidationResult.error (fst (validateWebBotAuth e w request config)) \<noteq>
          Some (''No matching key found for kid: '' @ template_str (keyId sc)) \<and>
        (isValid (fst (validateWebBotAuth e w request config)) \<longleftrightarrow>
           fst (verifySignatureWithWebBotAuth e w1 request (ks ! i) dir) \<and>
           \<not> purposeMismatch config dir)"
    if "\<exists>key \<in> set ks. get_prop key ''kid'' = Some (JStr ?k)"
  proof -
    from findKid_found [OF ks(2) that] lookup obtain i where
      i: "i < length ks" "get_prop (ks ! i) ''kid'' = Some (JStr ?k)"
         "\<forall>j<i. get_prop (ks ! j) ''kid'' \<noteq> Some (JStr ?k)"
         "findKeyById dir ?k = Inr (Some (ks ! i))"
      by auto
    from matched_key_outcome [OF assms(2,3,4) dir(1) ks(3) i(4)] i
    show ?thesis by blast
  qed
  have unknown:
    "validateWebBotAuth e w request config =
       (\<lparr>isValid = False,
         error = Some (''No matching key found for kid: '' @ template_str (keyId sc)),
         details = \<lparr>signatureFound = True, directoryFetched = True,
                     keyMatched = False, signatureValid = False\<rparr>,
         metadata = None\<rparr>, w1)"
    if "\<forall>key \<in> set ks. get_prop key ''kid'' \<noteq> Some (JStr ?k)"
  proof -
    from findKid_absent [OF ks(2) that] lookup have "findKeyById dir ?k = Inr None" by simp
    from validate_unknown_key [OF assms(2,3,4) dir(1) ks(3) this] show ?thesis .
  qed
  from dir(1) ks(1) matched unknown show ?thesis by blast
qed

text \<open>
  The claim as written fails: the key of this directory expired long before the
  verification instant, its \<^verbatim>\<open>kid\<close> is the request's \<^verbatim>\<open>keyid\<close>, and the request is
  accepted.
\<close>

theorem key_outside_window_counterexample:
  "get_prop expiredDirectory ''keys'' = Some (JArr [expiredKey]) \<and>
   get_prop expiredKey ''kid'' = Some (JStr ''test-key'') \<and>
   matchFirst (quotedAt ''keyid'') testSignatureInput = Some ''test-key'' \<and>
   get_prop expiredKey ''exp'' = Some (JNum 1743552000000) \<and>
   outsideValidityWindow 1800000000000 expiredKey \<and>
   fst (validateWebBotAuth (productionEnv (fetchOk expiredDirectory) 1800000000000)
          initialWorld signedRequest testConfig) =
     \<lparr>isValid = True, error = None,
       details = \<lparr>signatureFound = True, directoryFetched = True,
                   keyMatched = True, signatureValid = True\<rparr>,
       metadata = Some \<lparr>kid = Some ''test-key'', purpose = Some (JStr ''test''),
                        timestamp = Some ''2026-11-02T00:00:00.000Z''\<rparr>\<rparr>"
  by code_simp

theorem key_match_ignores_validity_window_witness:
  "cacheValidated (directoryCache initialWorld) \<and>
   extractSignatureComponents signedRequest \<noteq> None \<and>
   success (fst (fetchSignaturesDirectory (fetchOk duplicateKidDirectory) 1800000000000
                   initialWorld testUrl (Some 1000))) \<and>
   get_prop duplicateKidDirectory ''keys'' = Some (JArr [expiredKey, testKey]) \<and>
   get_prop expiredKey ''kid'' = Some (JStr ''test-key'') \<and>
   get_prop testKey ''kid'' = Some (JStr ''test-key'') \<and>
   outsideValidityWindow 1800000000000 expiredKey \<and>
   \<not> outsideValidityWindow 1800000000000 testKey \<and>
   findKeyById duplicateKidDirectory ''test-key'' = Inr (Some expiredKey) \<and>
   keyMatched (details (fst (validateWebBotAuth
     (productionEnv (fetchOk duplicateKidDirectory) 1800000000000)
     initialWorld signedRequest testConfig))) \<and>
   ValidationResult.error (fst (validateWebBotAuth
     (productionEnv (fetchOk duplicateKidDirectory) 1800000000000)
     initialWorld signedRequest testConfig)) \<noteq>
     Some (''No matching key found for kid: '' @ ''test-key'')"
proof -
  let ?e = "productionEnv (fetchOk duplicateKidDirectory) 1800000000000 :: unit env"
  let ?res = "fetchSignaturesDirectory (fetch ?e) (now ?e) initialWorld
                (directoryUrl testConfig) (cacheTimeout testConfig)"
  have inv: "cacheValidated (directoryCache initialWorld)"
    by (simp add: cacheValidated_def initialWorld_def)
  from signedRequest_components obtain sc where
    sc: "extractSignatureComponents signedRequest = Some sc" by auto
  from extract_Some_keyId [OF sc] have kid: "keyId sc = Some ''test-key''"
    by (simp add: signedRequest_signature_input signedRequest_keyid)
  have res: "?res = (fst ?res, snd ?res)" by simp
  have sel: "?res = fetchSignaturesDirectory (fetchOk duplicateKidDirectory) 1800000000000
                      initialWorld testUrl (Some 1000)"
    by (simp add: productionEnv_sel testConfig_sel)
  have fetched:
    "success (fst (fetchSignaturesDirectory (fetchOk duplicateKidDirectory) 1800000000000
                     initialWorld testUrl (Some 1000)))"
    "directory (fst (fetchSignaturesDirectory (fetchOk duplicateKidDirectory) 1800000000000
                       initialWorld testUrl (Some 1000))) = Some duplicateKidDirectory"
    by code_simp+
  then have ok: "success (fst ?res)" by (simp add: sel)
  have keys: "get_prop duplicateKidDirectory ''keys'' = Some (JArr [expiredKey, testKey])"
    by (simp add: duplicateKidDirectory_def)
  have kids: "get_prop expiredKey ''kid'' = Some (JStr ''test-key'')"
    "get_prop testKey ''kid'' = Some (JStr ''test-key'')"
    by (simp_all add: expiredKey_def testKey_def)
  have window: "outsideValidityWindow 1800000000000 expiredKey"
    "\<not> outsideValidityWindow 1800000000000 testKey"
    by (simp_all add: outsideValidityWindow_def expiredKey_def testKey_def)
  from key_match_ignores_validity_window [OF inv sc res ok] obtain dir ks where
    d: "directory (fst ?res) = Some dir" "get_prop dir ''keys'' = Some (JArr ks)"
    and m: "(\<exists>key \<in> set ks. get_prop key ''kid'' = Some (JStr (orEmpty (keyId sc)))) \<longrightarrow>
              (\<exists>i<length ks.
                 (\<forall>j<i. get_prop (ks ! j) ''kid'' \<noteq> Some (JStr (orEmpty (keyId sc)))) \<and>
                 findKeyById dir (orEmpty (keyId sc)) = Inr (Some (ks ! i)) \<and>
                 keyMatched (details (fst (validateWebBotAuth ?e initialWorld signedRequest testConfig))) \<and>
                 ValidationResult.error (fst (validateWebBotAuth ?e initialWorld signedRequest testConfig)) \<noteq>
                   Some (''No matching key found for kid: '' @ template_str (keyId sc)))"
    by blast
  from d(1) fetched(2) have dir: "dir = duplicateKidDirectory" by (simp add: sel)
  with d(2) keys have ks: "ks = [expiredKey, testKey]" by simp
  with kid kids have "\<exists>key \<in> set ks. get_prop key ''kid'' = Some (JStr (orEmpty (keyId sc)))"
    by simp
  with m obtain i where
    i: "\<forall>j<i. get_prop (ks ! j) ''kid'' \<noteq> Some (JStr (orEmpty (keyId sc)))"
       "findKeyById dir (orEmpty (keyId sc)) = Inr (Some (ks ! i))"
       "keyMatched (details (fst (validateWebBotAuth ?e initialWorld signedRequest testConfig)))"
       "ValidationResult.error (fst (validateWebBotAuth ?e initialWorld signedRequest testConfig)) \<noteq>
          Some (''No matching key found for kid: '' @ template_str (keyId sc))"
    by blast
  have "i = 0"
  proof (rule ccontr)
    assume "i \<noteq> 0"
    then have "0 < i" by simp
    with i(1) have "get_prop (ks ! 0) ''kid'' \<noteq> Some (JStr (orEmpty (keyId sc)))" by blast
    with ks kid kids show False by simp
  qed
  with i(2) dir ks kid have first: "findKeyById duplicateKidDirectory ''test-key'' = Inr (Some expiredKey)"
    by simp
  from i(3,4) kid have
    "keyMatched (details (fst (validateWebBotAuth ?e initialWorld signedRequest testConfig))) \<and>
     ValidationResult.error (fst (validateWebBotAuth ?e initialWorld signedRequest testConfig)) \<noteq>
       Some (''No matching key found for kid: '' @ ''test-key'')"
    by simp
  with inv signedRequest_components fetched(1) keys kids window first show ?thesis by blast
qed

section \<open>The purpose check\<close>





section \<open>What the signature check depends on\<close>

lemma verify_outcome:
  "fst (verifySignatureWithWebBotAuth e w request key dir) \<longleftrightarrow>
     NODE_ENV e \<noteq> Some ''test'' \<and>
     (\<exists>v. verifierFromJWK e key = Inr v \<and> verify e request (LibVerifier v) = Inr ())"
  by (auto simp add: verifySignatureWithWebBotAuth_def mock_verifierFromJWK_def mock_verify_def
        Let_def split: sum.splits)

lemma verify_true_keeps_state:
  assumes "fst (verifySignatureWithWebBotAuth e w request key dir)"
  shows "snd (verifySignatureWithWebBotAuth e w request key dir) = w"
  using assms
  by (auto simp add: verifySignatureWithWebBotAuth_def Let_def split: sum.splits)

lemma verify_false_logs:
  assumes "\<not> fst (verifySignatureWithWebBotAuth e w request key dir)"
  shows "\<exists>msg. snd (verifySignatureWithWebBotAuth e w request key dir) =
           w\<lparr>console := console w @ [''Signature verification error: '' @ msg]\<rparr>"
  using assms
  by (auto simp add: verifySignatureWithWebBotAuth_def Let_def split: sum.splits)

text \<open>
  Claim C3, as the code has it. The outcome of step 4 is decided by the environment flag
  and the library: it is \<^verbatim>\<open>false\<close> whenever \<^verbatim>\<open>NODE_ENV\<close> is \<^verbatim>\<open>test\<close>, and otherwise
  \<^verbatim>\<open>true\<close> exactly when \<^verbatim>\<open>verifierFromJWK\<close> and \<^verbatim>\<open>verify\<close> both complete. It reads
  neither the cache, the clock nor the network: two runs on the same request and key that
  agree on whether the flag is \<^verbatim>\<open>test\<close> and on the library's answers give the same
  outcome, whatever the two states, clocks, \<^verbatim>\<open>fetch\<close> functions and directories are.
  The cache and the fetch log are never changed; a \<^verbatim>\<open>true\<close> outcome leaves the whole
  state as it was, and a \<^verbatim>\<open>false\<close> outcome adds one line to the console.
\<close>

theorem signature_check_dependencies:
  fixes e e' :: "'v env"
  shows
    "(fst (verifySignatureWithWebBotAuth e w request key dir) \<longleftrightarrow>
        NODE_ENV e \<noteq> Some ''test'' \<and>
        (\<exists>v. verifierFromJWK e key = Inr v \<and> verify e request (LibVerifier v) = Inr ())) \<and>
     (NODE_ENV e = Some ''test'' \<longrightarrow> \<not> fst (verifySignatureWithWebBotAuth e w request key dir)) \<and>
     ((NODE_ENV e = Some ''test'' \<longleftrightarrow> NODE_ENV e' = Some ''test'') \<and>
      verifierFromJWK e key = verifierFromJWK e' key \<and>
      (\<forall>vf. verify e request vf = verify e' request vf) \<longrightarrow>
        fst (verifySignatureWithWebBotAuth e w request key dir) =
        fst (verifySignatureWithWebBotAuth e' w' request key dir')) \<and>
     directoryCache (snd (verifySignatureWithWebBotAuth e w request key dir)) = directoryCache w \<and>
     fetchCalls (snd (verifySignatureWithWebBotAuth e w request key dir)) = fetchCalls w \<and>
     (fst (verifySignatureWithWebBotAuth e w request key dir) \<longrightarrow>
        snd (verifySignatureWithWebBotAuth e w request key dir) = w) \<and>
     (\<not> fst (verifySignatureWithWebBotAuth e w request key dir) \<longrightarrow>
        (\<exists>msg. snd (verifySignatureWithWebBotAuth e w request key dir) =
           w\<lparr>console := console w @ [''Signature verification error: '' @ msg]\<rparr>))"
proof (intro conjI impI)
  show "fst (verifySignatureWithWebBotAuth e w request key dir) \<longleftrightarrow>
        NODE_ENV e \<noteq> Some ''test'' \<and>
        (\<exists>v. verifierFromJWK e key = Inr v \<and> verify e request (LibVerifier v) = Inr ())"
    by (rule verify_outcome)
next
  assume "NODE_ENV e = Some ''test''"
  then show "\<not> fst (verifySignatureWithWebBotAuth e w request key dir)"
    by (simp add: verify_outcome)
next
  assume "(NODE_ENV e = Some ''test'' \<longleftrightarrow> NODE_ENV e' = Some ''test'') \<and>
      verifierFromJWK e key = verifierFromJWK e' key \<and>
      (\<forall>vf. verify e request vf = verify e' request vf)"
  then show "fst (verifySignatureWithWebBotAuth e w request key dir) =
        fst (verifySignatureWithWebBotAuth e' w' request key dir')"
    by (simp add: verify_outcome)
next
  show "directoryCache (snd (verifySignatureWithWebBotAuth e w request key dir)) = directoryCache w"
    "fetchCalls (snd (verifySignatureWithWebBotAuth e w request key dir)) = fetchCalls w"
    using verify_keeps_cache [of e w request key dir] by simp_all
next
  assume "fst (verifySignatureWithWebBotAuth e w request key dir)"
  then show "snd (verifySignatureWithWebBotAuth e w request key dir) = w"
    by (rule verify_true_keeps_state)
next
  assume "\<not> fst (verifySignatureWithWebBotAuth e w request key dir)"
  then show "\<exists>msg. snd (verifySignatureWithWebBotAuth e w request key dir) =
           w\<lparr>console := console w @ [''Signature verification error: '' @ msg]\<rparr>"
    by (rule verify_false_logs)
qed

text \<open>
  The claim as written fails: the same request, key and library give \<^verbatim>\<open>true\<close> in one
  environment and \<^verbatim>\<open>false\<close> in the environment that differs only in \<^verbatim>\<open>NODE_ENV\<close>.
\<close>

theorem environment_flag_counterexample:
  "testEnv (fetchOk testDirectory) 0 =
     (productionEnv (fetchOk testDirectory) 0)\<lparr>NODE_ENV := Some ''test''\<rparr> \<and>
   fst (verifySignatureWithWebBotAuth (productionEnv (fetchOk testDirectory) 0)
          initialWorld signedRequest testKey testDirectory) \<and>
   \<not> fst (verifySignatureWithWebBotAuth (testEnv (fetchOk testDirectory) 0)
            initialWorld signedRequest testKey testDirectory)"
  by (simp add: testEnv_def verify_outcome productionEnv_def
        acceptingVerifierFromJWK_def acceptingVerify_def)

theorem signature_check_dependencies_witness:
  "(NODE_ENV (productionEnv (fetchOk testDirectory) 0) = Some ''test'' \<longleftrightarrow>
      NODE_ENV (productionEnv fetchNotFound 99) = Some ''test'') \<and>
   verifierFromJWK (productionEnv (fetchOk testDirectory) 0) testKey =
     verifierFromJWK (productionEnv fetchNotFound 99) testKey \<and>
   fst (verifySignatureWithWebBotAuth (productionEnv (fetchOk testDirectory) 0)
          initialWorld signedRequest testKey testDirectory) \<and>
   fst (verifySignatureWithWebBotAuth (productionEnv fetchNotFound 99)
          cachedWorld signedRequest testKey expiredDirectory) \<and>
   snd (verifySignatureWithWebBotAuth (productionEnv (fetchOk testDirectory) 0)
          initialWorld signedRequest testKey testDirectory) = initialWorld \<and>
   NODE_ENV (testEnv (fetchOk testDirectory) 0) = Some ''test'' \<and>
   \<not> fst (verifySignatureWithWebBotAuth (testEnv (fetchOk testDirectory) 0)
            initialWorld signedRequest testKey testDirectory)"
proof -
  let ?e = "productionEnv (fetchOk testDirectory) 0 :: unit env"
  let ?e' = "productionEnv fetchNotFound 99 :: unit env"
  let ?t = "testEnv (fetchOk testDirectory) 0 :: unit env"
  note T = signature_check_dependencies [where e = ?e and e' = ?e' and w = initialWorld
      and w' = cachedWorld and request = signedRequest and key = testKey
      and dir = testDirectory and dir' = expiredDirectory]
  note U = signature_check_dependencies [where e = ?t and e' = ?t and w = initialWorld
      and w' = initialWorld and request = signedRequest and key = testKey
      and dir = testDirectory and dir' = testDirectory]
  have flag: "NODE_ENV ?e = Some ''test'' \<longleftrightarrow> NODE_ENV ?e' = Some ''test''"
    by (simp add: productionEnv_sel)
  have lib: "verifierFromJWK ?e testKey = verifierFromJWK ?e' testKey"
    "\<forall>vf. verify ?e signedRequest vf = verify ?e' signedRequest vf"
    by (simp_all add: productionEnv_sel)
  have accepted: "NODE_ENV ?e \<noteq> Some ''test'' \<and>
      (\<exists>v. verifierFromJWK ?e testKey = Inr v \<and> verify ?e signedRequest (LibVerifier v) = Inr ())"
    by (simp add: productionEnv_sel acceptingVerifierFromJWK_def acceptingVerify_def)
  from T accepted have a: "fst (verifySignatureWithWebBotAuth ?e initialWorld signedRequest testKey testDirectory)"
    by blast
  from T flag lib a have b: "fst (verifySignatureWithWebBotAuth ?e' cachedWorld signedRequest testKey expiredDirectory)"
    by blast
  from T a have c: "snd (verifySignatureWithWebBotAuth ?e initialWorld signedRequest testKey testDirectory) = initialWorld"
    by blast
  have test: "NODE_ENV ?t = Some ''test''" by (simp add: testEnv_sel)
  from U test have d: "\<not> fst (verifySignatureWithWebBotAuth ?t initialWorld signedRequest testKey testDirectory)"
    by blast
  from flag lib(1) a b c test d show ?thesis by blast
qed

end
